theory Spec2Isabelle
  imports Complex_Main "HOL-Library.Sublist" "HOL-Library.List_Lexorder" "HOL-Library.Char_ord"
begin

unbundle bit_operations_syntax

section \<open>Numbers and strings as the Python code uses them\<close>

text \<open>
  Python floats are modelled as the real numbers they approximate: the arithmetic of the
  scoring code (sums, products by constants, \<open>min\<close>, \<open>max\<close>) is read over \<open>real\<close>.
  Python strings are modelled as \<open>string\<close>, one \<open>char\<close> per character; the texts
  the engine handles are taken to be ASCII, and the arrow of the insight strings is written
  as its three UTF-8 bytes.
\<close>

text \<open>\<^verbatim>\<open>round(x)\<close> of Python rounds to the nearest integer, ties to the even one.\<close>

definition round_half_even :: "real \<Rightarrow> int" where
  "round_half_even x =
     (let f = \<lfloor>x\<rfloor>; d = x - of_int f
      in if d < 1/2 then f else if 1/2 < d then f + 1 else if even f then f else f + 1)"

text \<open>\<^verbatim>\<open>round(x, n)\<close> for a non-negative number of digits \<open>n\<close>.\<close>

definition py_round :: "real \<Rightarrow> nat \<Rightarrow> real" where
  "py_round x n = of_int (round_half_even (x * 10 ^ n)) / 10 ^ n"

text \<open>\<^verbatim>\<open>str.lower()\<close> on ASCII text: the 26 capital letters are mapped, all else is kept.\<close>

definition char_lower :: "char \<Rightarrow> char" where
  "char_lower c =
     (case map_of (zip ''ABCDEFGHIJKLMNOPQRSTUVWXYZ'' ''abcdefghijklmnopqrstuvwxyz'') c of
        Some l \<Rightarrow> l
      | None \<Rightarrow> c)"

definition lower :: "string \<Rightarrow> string" where
  "lower s = map char_lower s"

text \<open>\<^verbatim>\<open>sub in s\<close> on strings: \<open>sub\<close> occurs in \<open>s\<close> as a contiguous substring.\<close>

primrec py_in :: "string \<Rightarrow> string \<Rightarrow> bool" where
  "py_in sub [] = (sub = [])"
| "py_in sub (c # cs) = (prefix sub (c # cs) \<or> py_in sub cs)"

text \<open>
  \<^verbatim>\<open>str.isspace()\<close> on ASCII: the characters that \<^verbatim>\<open>strip()\<close>, \<^verbatim>\<open>split()\<close> and the
  regular-expression class \<^verbatim>\<open>\s\<close> treat as whitespace (tab, line feed, vertical tab,
  form feed, carriage return, the four separators 0x1C..0x1F and the space).
\<close>

definition py_isspace :: "char \<Rightarrow> bool" where
  "py_isspace c \<longleftrightarrow>
     c \<in> set [CHR 0x09, CHR 0x0A, CHR 0x0B, CHR 0x0C, CHR 0x0D,
                  CHR 0x1C, CHR 0x1D, CHR 0x1E, CHR 0x1F, CHR 0x20]"

definition py_isdigit :: "char \<Rightarrow> bool" where
  "py_isdigit c \<longleftrightarrow> c \<in> set ''0123456789''"

definition py_isalpha :: "char \<Rightarrow> bool" where
  "py_isalpha c \<longleftrightarrow>
     c \<in> set ''abcdefghijklmnopqrstuvwxyzABCDEFGHIJKLMNOPQRSTUVWXYZ''"

text \<open>The class \<^verbatim>\<open>\w\<close>: letters, digits and the underscore.\<close>

definition py_isword :: "char \<Rightarrow> bool" where
  "py_isword c \<longleftrightarrow> py_isalpha c \<or> py_isdigit c \<or> c = CHR ''_''"

definition strip :: "string \<Rightarrow> string" where
  "strip s = rev (dropWhile py_isspace (rev (dropWhile py_isspace s)))"

text \<open>The maximal runs of characters of a class, in order.\<close>

fun runs :: "(char \<Rightarrow> bool) \<Rightarrow> string \<Rightarrow> string \<Rightarrow> string list" where
  "runs P w [] = (if w = [] then [] else [rev w])"
| "runs P w (c # cs) =
     (if P c then runs P (c # w) cs
      else if w = [] then runs P [] cs else rev w # runs P [] cs)"

text \<open>\<^verbatim>\<open>s.split()\<close>: the maximal runs of non-whitespace characters.\<close>

definition split :: "string \<Rightarrow> string list" where
  "split s = runs (\<lambda>c. \<not> py_isspace c) [] s"

text \<open>\<^verbatim>\<open>sep.join(xs)\<close>.\<close>

fun join :: "string \<Rightarrow> string list \<Rightarrow> string" where
  "join sep [] = []"
| "join sep [x] = x"
| "join sep (x # y # ys) = x @ sep @ join sep (y # ys)"

text \<open>\<^verbatim>\<open>str.title()\<close> on ASCII: a letter after a letter is lowered, any other letter raised.\<close>

definition char_upper :: "char \<Rightarrow> char" where
  "char_upper c =
     (case map_of (zip ''abcdefghijklmnopqrstuvwxyz'' ''ABCDEFGHIJKLMNOPQRSTUVWXYZ'') c of
        Some u \<Rightarrow> u
      | None \<Rightarrow> c)"

fun title_from :: "bool \<Rightarrow> string \<Rightarrow> string" where
  "title_from prev_cased [] = []"
| "title_from prev_cased (c # cs) =
     (if py_isalpha c
      then (if prev_cased then char_lower c else char_upper c) # title_from True cs
      else c # title_from False cs)"

definition title :: "string \<Rightarrow> string" where
  "title s = title_from False s"

text \<open>\<^verbatim>\<open>str(n)\<close> for an integer.\<close>

fun str_nat :: "nat \<Rightarrow> string" where
  "str_nat n =
     (if n < 10 then [''0123456789'' ! n]
      else str_nat (n div 10) @ [''0123456789'' ! (n mod 10)])"

declare str_nat.simps [simp del]

definition str_int :: "int \<Rightarrow> string" where
  "str_int i = (if i < 0 then ''-'' @ str_nat (nat (- i)) else str_nat (nat i))"

text \<open>
  Fixed-point formatting \<^verbatim>\<open>f"{v:.nf}"\<close> with \<open>n \<ge> 1\<close> digits after the point: the
  magnitude is rounded half to even, a negative value keeps its sign.
\<close>

definition fmt_fixed :: "nat \<Rightarrow> real \<Rightarrow> string" where
  "fmt_fixed n v =
     (let q = nat (round_half_even (\<bar>v\<bar> * 10 ^ n));
          frac = str_nat (q mod 10 ^ n)
      in (if v < 0 then ''-'' else []) @ str_nat (q div 10 ^ n) @ ''.''
         @ replicate (n - length frac) (CHR ''0'') @ frac)"

text \<open>
  Slices with a possibly negative bound: \<^verbatim>\<open>t[:n]\<close> and \<^verbatim>\<open>t[n:]\<close>. A negative bound
  counts from the end, and \<^verbatim>\<open>t[-0:]\<close> is \<^verbatim>\<open>t[0:]\<close>, the whole string.
\<close>

definition slice_to :: "int \<Rightarrow> 'a list \<Rightarrow> 'a list" where
  "slice_to n xs = (if 0 \<le> n then take (nat n) xs else take (length xs - nat (- n)) xs)"

definition slice_from :: "int \<Rightarrow> 'a list \<Rightarrow> 'a list" where
  "slice_from n xs = (if 0 \<le> n then drop (nat n) xs else drop (length xs - nat (- n)) xs)"

text \<open>\<^verbatim>\<open>int(x)\<close> on a float truncates towards zero.\<close>

definition py_int :: "real \<Rightarrow> int" where
  "py_int x = (if 0 \<le> x then \<lfloor>x\<rfloor> else \<lceil>x\<rceil>)"

section \<open>Snippet truncation\<close>

text \<open>
  \<^verbatim>\<open>trim\<close> is the inner function of \<^verbatim>\<open>short_context_snippets\<close> in
  \<^verbatim>\<open>utils_dom.py\<close>, with the limit \<^verbatim>\<open>max_chars\<close> it closes over made a parameter.
\<close>

definition trim :: "int \<Rightarrow> string \<Rightarrow> string" where
  "trim max_chars t0 =
     (let t = strip t0
      in if int (length t) \<le> max_chars then t
         else let half = max_chars div 2
              in slice_to half t @ '' ... '' @ slice_from (- half) t)"

definition short_context_snippets :: "string \<Rightarrow> string \<Rightarrow> int \<Rightarrow> string \<times> string" where
  "short_context_snippets prev_text cur_text max_chars =
     (trim max_chars prev_text, trim max_chars cur_text)"

text \<open>\<^verbatim>\<open>_smart_truncate\<close> of \<^verbatim>\<open>bedrock_prompt.py\<close>.\<close>

definition truncation_marker :: string where
  "truncation_marker =
     [CHR 0x0A, CHR 0x0A] @ ''[... content truncated ...]'' @ [CHR 0x0A, CHR 0x0A]"

definition smart_truncate :: "string \<Rightarrow> int \<Rightarrow> string" where
  "smart_truncate text0 max_chars =
     (let text = strip text0
      in if int (length text) \<le> max_chars then text
         else let first_part = py_int (real_of_int max_chars * 0.6);
                  last_part = py_int (real_of_int max_chars * 0.4)
              in slice_to first_part text @ truncation_marker @ slice_from (- last_part) text)"

section \<open>Regular expressions as backtracking matchers\<close>

text \<open>
  The patterns of \<^verbatim>\<open>compare_texts.py\<close> are written with matchers in
  continuation-passing style: a matcher takes the continuation \<open>k\<close> that matches the rest
  of the pattern and the text still to be read, and returns the first result that the
  backtracking search of \<^verbatim>\<open>re\<close> finds, or \<open>None\<close>. Alternatives are tried from left
  to right, a greedy repetition tries the longest run first, a lazy one the shortest.
\<close>

type_synonym 'a cont = "string \<Rightarrow> 'a option"

type_synonym 'a matcher = "'a cont \<Rightarrow> string \<Rightarrow> 'a option"

definition lit :: "string \<Rightarrow> 'a matcher" where
  "lit w k s = (if prefix w s then k (drop (length w) s) else None)"

definition alt :: "'a matcher \<Rightarrow> 'a matcher \<Rightarrow> 'a matcher" where
  "alt a b k s = (case a k s of Some r \<Rightarrow> Some r | None \<Rightarrow> b k s)"

text \<open>\<^verbatim>\<open>(?:a)?\<close>: with \<open>a\<close> first, then without.\<close>

definition opt :: "'a matcher \<Rightarrow> 'a matcher" where
  "opt a k s = (case a k s of Some r \<Rightarrow> Some r | None \<Rightarrow> k s)"

text \<open>One character of a class.\<close>

definition one :: "(char \<Rightarrow> bool) \<Rightarrow> 'a matcher" where
  "one P k s = (case s of [] \<Rightarrow> None | c # cs \<Rightarrow> if P c then k cs else None)"

text \<open>\<^verbatim>\<open>[class]*\<close>, greedy.\<close>

fun star :: "(char \<Rightarrow> bool) \<Rightarrow> 'a matcher" where
  "star P k [] = k []"
| "star P k (c # cs) =
     (if P c then (case star P k cs of Some r \<Rightarrow> Some r | None \<Rightarrow> k (c # cs))
      else k (c # cs))"

text \<open>\<^verbatim>\<open>[class]+\<close>, greedy.\<close>

definition plus :: "(char \<Rightarrow> bool) \<Rightarrow> 'a matcher" where
  "plus P k = one P (star P k)"

text \<open>\<^verbatim>\<open>[class]*?\<close>, lazy.\<close>

fun lazy_star :: "(char \<Rightarrow> bool) \<Rightarrow> 'a matcher" where
  "lazy_star P k [] = k []"
| "lazy_star P k (c # cs) =
     (case k (c # cs) of
        Some r \<Rightarrow> Some r
      | None \<Rightarrow> if P c then lazy_star P k cs else None)"

text \<open>\<^verbatim>\<open>[class]{0,n}?\<close>, lazy and bounded.\<close>

fun lazy_upto :: "nat \<Rightarrow> (char \<Rightarrow> bool) \<Rightarrow> 'a matcher" where
  "lazy_upto 0 P k s = k s"
| "lazy_upto (Suc n) P k [] = k []"
| "lazy_upto (Suc n) P k (c # cs) =
     (case k (c # cs) of
        Some r \<Rightarrow> Some r
      | None \<Rightarrow> if P c then lazy_upto n P k cs else None)"

text \<open>\<^verbatim>\<open>(?:,\d{3})*\<close>, greedy: groups of a comma and three digits.\<close>

fun comma_groups :: "'a matcher" where
  "comma_groups k (c0 # c1 # c2 # c3 # cs) =
     (if c0 = CHR '','' \<and> py_isdigit c1 \<and> py_isdigit c2 \<and> py_isdigit c3
      then (case comma_groups k cs of
              Some r \<Rightarrow> Some r
            | None \<Rightarrow> k (c0 # c1 # c2 # c3 # cs))
      else k (c0 # c1 # c2 # c3 # cs))"
| "comma_groups k s = k s"

text \<open>
  A capturing group: the continuation also receives the text the group has matched.
\<close>

definition capture :: "'a matcher \<Rightarrow> (string \<Rightarrow> 'a cont) \<Rightarrow> string \<Rightarrow> 'a option" where
  "capture m k s = m (\<lambda>r. k (take (length s - length r) s) r) s"

text \<open>
  \<^verbatim>\<open>re.search\<close>: the match at the leftmost position where the pattern matches at all.
\<close>

fun re_search :: "(string \<Rightarrow> 'a option) \<Rightarrow> string \<Rightarrow> 'a option" where
  "re_search m [] = m []"
| "re_search m (c # cs) =
     (case m (c # cs) of Some r \<Rightarrow> Some r | None \<Rightarrow> re_search m cs)"

text \<open>The whole match, \<^verbatim>\<open>group()\<close>, of a pattern without groups.\<close>

definition whole_match :: "string matcher \<Rightarrow> string \<Rightarrow> string option" where
  "whole_match m s = capture m (\<lambda>g r. Some g) s"

text \<open>\<^verbatim>\<open>float(s)\<close> on digits with an optional fraction and without a sign.\<close>

definition digit_value :: "char \<Rightarrow> nat" where
  "digit_value c =
     (case map_of (zip ''0123456789'' [0, 1, 2, 3, 4, 5, 6, 7, 8, 9]) c of
        Some d \<Rightarrow> d
      | None \<Rightarrow> 0)"

definition nat_of_digits :: "string \<Rightarrow> nat" where
  "nat_of_digits ds = foldl (\<lambda>n c. 10 * n + digit_value c) 0 ds"

definition float_of_decimal :: "string \<Rightarrow> real" where
  "float_of_decimal s =
     (let ip = takeWhile (\<lambda>c. c \<noteq> CHR ''.'') s;
          fp = drop 1 (dropWhile (\<lambda>c. c \<noteq> CHR ''.'') s)
      in real (nat_of_digits ip) + real (nat_of_digits fp) / 10 ^ length fp)"

text \<open>\<^verbatim>\<open>s.replace(',', '')\<close>.\<close>

definition remove_commas :: "string \<Rightarrow> string" where
  "remove_commas s = filter (\<lambda>c. c \<noteq> CHR '','') s"

definition alts :: "'a matcher list \<Rightarrow> 'a matcher" where
  "alts ms k s = foldr (\<lambda>m r. case m k s of Some x \<Rightarrow> Some x | None \<Rightarrow> r) ms None"

text \<open>\<^verbatim>\<open>(?!a)\<close>: the rest is matched only where \<open>a\<close> does not match.\<close>

definition not_ahead :: "unit matcher \<Rightarrow> 'a matcher" where
  "not_ahead a k s = (case a (\<lambda>r. Some ()) s of Some u \<Rightarrow> None | None \<Rightarrow> k s)"

section \<open>Numeric indicators and critical phrases\<close>

subsection \<open>The patterns of \<^verbatim>\<open>extract_numbers_with_labels\<close>\<close>

definition space_or_colon :: "char \<Rightarrow> bool" where
  "space_or_colon c \<longleftrightarrow> py_isspace c \<or> c = CHR '':''"

text \<open>\<^verbatim>\<open>(?:study|trial|clinical\s+trial)[^.]*?phase\s*(?:iii|3|ii|2|iv|4|i|1)\<close>\<close>

definition overview_re :: "'a matcher" where
  "overview_re k =
     alt (lit ''study'')
       (alt (lit ''trial'') (\<lambda>k'. lit ''clinical'' (plus py_isspace (lit ''trial'' k'))))
       (lazy_star (\<lambda>c. c \<noteq> CHR ''.'')
         (lit ''phase''
           (star py_isspace
             (alts (map lit [''iii'', ''3'', ''ii'', ''2'', ''iv'', ''4'', ''i'', ''1'']) k))))"

text \<open>\<^verbatim>\<open>phase\s*i(?!\s*(?:i|v))\<close>\<close>

definition phase_one_re :: "'a matcher" where
  "phase_one_re k =
     lit ''phase''
       (star py_isspace
         (lit ''i''
           (not_ahead (\<lambda>k'. star py_isspace (alt (lit ''i'') (lit ''v'') k')) k)))"

text \<open>\<^verbatim>\<open>(?:protocol\s+)?v(?:ersion\s+)?(\d+\.\d+)\<close>\<close>

definition proto_re :: "string \<Rightarrow> string option" where
  "proto_re =
     opt (\<lambda>k. lit ''protocol'' (plus py_isspace k))
       (lit ''v''
         (opt (\<lambda>k. lit ''ersion'' (plus py_isspace k))
           (capture (\<lambda>k. plus py_isdigit (lit ''.'' (plus py_isdigit k)))
             (\<lambda>g r. Some g))))"

text \<open>\<^verbatim>\<open>(?:enrolled?|enrollment)[\s:]+(\d+(?:,\d{3})*)\s*(?:patients?)?\<close>\<close>

definition enroll_re :: "string \<Rightarrow> string option" where
  "enroll_re =
     alt (\<lambda>k. lit ''enrolle'' (opt (lit ''d'') k)) (lit ''enrollment'')
       (plus space_or_colon
         (capture (\<lambda>k. plus py_isdigit (comma_groups k))
           (\<lambda>g. star py_isspace
              (opt (\<lambda>k. lit ''patient'' (opt (lit ''s'') k)) (\<lambda>r. Some g)))))"

text \<open>\<^verbatim>\<open>target\s+enrollment[\s:]+(\d+(?:,\d{3})*)\<close>\<close>

definition target_re :: "string \<Rightarrow> string option" where
  "target_re =
     lit ''target''
       (plus py_isspace
         (lit ''enrollment''
           (plus space_or_colon
             (capture (\<lambda>k. plus py_isdigit (comma_groups k)) (\<lambda>g r. Some g)))))"

text \<open>\<^verbatim>\<open>(?:active\s+)?sites?[\s:]+(\d+)\<close>\<close>

definition sites_re :: "string \<Rightarrow> string option" where
  "sites_re =
     opt (\<lambda>k. lit ''active'' (plus py_isspace k))
       (lit ''site''
         (opt (lit ''s'')
           (plus space_or_colon (capture (plus py_isdigit) (\<lambda>g r. Some g)))))"

text \<open>\<^verbatim>\<open>\d+(?:\.\d+)?\<close>, the number of the percentage and dollar patterns.\<close>

definition number_re :: "'a matcher" where
  "number_re k = plus py_isdigit (opt (\<lambda>k'. lit ''.'' (plus py_isdigit k')) k)"

text \<open>\<^verbatim>\<open>(?:sae|serious\s+adverse\s+events?)[^%]{0,50}?(\d+(?:\.\d+)?)%\<close>\<close>

definition sae_re :: "string \<Rightarrow> string option" where
  "sae_re =
     alt (lit ''sae'')
       (\<lambda>k. lit ''serious''
          (plus py_isspace
            (lit ''adverse'' (plus py_isspace (lit ''event'' (opt (lit ''s'') k))))))
       (lazy_upto 50 (\<lambda>c. c \<noteq> CHR ''%'')
         (capture number_re (\<lambda>g. lit ''%'' (\<lambda>r. Some g))))"

text \<open>\<^verbatim>\<open>adverse\s+event\s+rate[\s:]+(\d+(?:\.\d+)?)%\<close>\<close>

definition ae_re :: "string \<Rightarrow> string option" where
  "ae_re =
     lit ''adverse''
       (plus py_isspace
         (lit ''event''
           (plus py_isspace
             (lit ''rate''
               (plus space_or_colon
                 (capture number_re (\<lambda>g. lit ''%'' (\<lambda>r. Some g))))))))"

text \<open>
  \<^verbatim>\<open>r&d\s+investment.*?[\$](\d+(?:\.\d+)?)\s*(billion|b|million|m)\<close>; the dot
  matches every character but the line feed.
\<close>

definition rd_re :: "string \<Rightarrow> (string \<times> string) option" where
  "rd_re =
     lit ''r&d''
       (plus py_isspace
         (lit ''investment''
           (lazy_star (\<lambda>c. c \<noteq> CHR 0x0A)
             (lit ''$''
               (capture number_re
                 (\<lambda>g. star py_isspace
                    (capture (alts (map lit [''billion'', ''b'', ''million'', ''m'']))
                      (\<lambda>u r. Some (g, u)))))))))"

text \<open>
  \<^verbatim>\<open>program\s+cost.*?[\$](\d+(?:,\d{3})*(?:\.\d+)?)\s*(billion|million|m)\<close>
\<close>

definition cost_re :: "string \<Rightarrow> (string \<times> string) option" where
  "cost_re =
     lit ''program''
       (plus py_isspace
         (lit ''cost''
           (lazy_star (\<lambda>c. c \<noteq> CHR 0x0A)
             (lit ''$''
               (capture
                 (\<lambda>k. plus py_isdigit
                    (comma_groups (opt (\<lambda>k'. lit ''.'' (plus py_isdigit k')) k)))
                 (\<lambda>g. star py_isspace
                    (capture (alts (map lit [''billion'', ''million'', ''m'']))
                      (\<lambda>u r. Some (g, u)))))))))"

subsection \<open>\<^verbatim>\<open>extract_numbers_with_labels\<close>\<close>

text \<open>
  The dictionary of indicators is an association list in insertion order; every rule
  writes a key of its own, so a rule that fires appends one entry.
\<close>

type_synonym kpi_map = "(string \<times> real) list"

definition phase_rule :: "string \<Rightarrow> kpi_map" where
  "phase_rule text_lower =
     (case re_search (whole_match overview_re) (take 500 text_lower) of
        None \<Rightarrow> []
      | Some g \<Rightarrow>
          (let overview_text = lower g
           in if py_in ''phase iii'' overview_text \<or> py_in ''phase 3'' overview_text
              then [(''Phase'', 3)]
              else if py_in ''phase ii'' overview_text \<or> py_in ''phase 2'' overview_text
              then [(''Phase'', 2)]
              else if py_in ''phase iv'' overview_text \<or> py_in ''phase 4'' overview_text
              then [(''Phase'', 4)]
              else if re_search (phase_one_re (\<lambda>r. Some ())) overview_text \<noteq> None
              then [(''Phase'', 1)]
              else []))"

definition group_rule ::
  "string \<Rightarrow> (string \<Rightarrow> string option) \<Rightarrow> (string \<Rightarrow> real) \<Rightarrow> string \<Rightarrow> kpi_map" where
  "group_rule key re conv text_lower =
     (case re_search re text_lower of None \<Rightarrow> [] | Some g \<Rightarrow> [(key, conv g)])"

definition rd_rule :: "string \<Rightarrow> kpi_map" where
  "rd_rule text_lower =
     (case re_search rd_re text_lower of
        None \<Rightarrow> []
      | Some (g, u) \<Rightarrow>
          (let v = float_of_decimal g; unit = lower u
           in if py_in ''b'' unit then [(''R&D'', v)]
              else if py_in ''m'' unit then [(''R&D'', v / 1000)]
              else []))"

definition cost_rule :: "string \<Rightarrow> kpi_map" where
  "cost_rule text_lower =
     (case re_search cost_re text_lower of
        None \<Rightarrow> []
      | Some (g, u) \<Rightarrow>
          (let v = float_of_decimal (remove_commas g); unit = lower u
           in if py_in ''m'' unit then [(''Program Cost'', v)] else []))"

definition extract_numbers_with_labels :: "string \<Rightarrow> kpi_map" where
  "extract_numbers_with_labels text =
     (let text_lower = lower text
      in phase_rule text_lower
         @ group_rule ''Protocol'' proto_re float_of_decimal text_lower
         @ group_rule ''Enrollment'' enroll_re (\<lambda>g. float_of_decimal (remove_commas g))
             text_lower
         @ group_rule ''Target Enrollment'' target_re
             (\<lambda>g. float_of_decimal (remove_commas g)) text_lower
         @ group_rule ''Sites'' sites_re float_of_decimal text_lower
         @ group_rule ''SAE'' sae_re float_of_decimal text_lower
         @ group_rule ''Adverse Event Rate'' ae_re float_of_decimal text_lower
         @ rd_rule text_lower
         @ cost_rule text_lower)"

subsection \<open>\<^verbatim>\<open>detect_critical_phrases\<close>\<close>

definition critical_terms :: "string list" where
  "critical_terms =
     [''fast track'', ''breakthrough'', ''discontinued'', ''terminated'', ''recall'',
      ''regulatory submission'', ''protocol v1.1'', ''phase 3'', ''phase iii'',
      ''paused'', ''delay'', ''hold'', ''accelerated approval'', ''priority review'']"

definition detect_critical_phrases :: "string \<Rightarrow> string \<Rightarrow> string list" where
  "detect_critical_phrases prev_text cur_text =
     (let prev_lower = lower prev_text; cur_lower = lower cur_text
      in map title
           (filter (\<lambda>term. py_in term cur_lower \<and> \<not> py_in term prev_lower) critical_terms))"

subsection \<open>Goal keywords\<close>

text \<open>
  \<^verbatim>\<open>re.findall(r'\b\w{3,}\b', goal.lower())\<close>: a match starts at a word boundary
  and greedily takes the whole run of word characters, so the matches are the maximal
  runs of at least three word characters.
\<close>

definition compute_goal_keywords :: "string \<Rightarrow> string list" where
  "compute_goal_keywords goal = filter (\<lambda>w. 3 \<le> length w) (runs py_isword [] (lower goal))"

definition count_keyword_hits :: "string list \<Rightarrow> string \<Rightarrow> string list \<Rightarrow> int" where
  "count_keyword_hits goal_keywords text numeric_insights =
     (let combined = lower (text @ '' '' @ join '' '' numeric_insights)
      in int (length (filter (\<lambda>kw. py_in kw combined) goal_keywords)))"

subsection \<open>\<^verbatim>\<open>compute_numeric_delta\<close>\<close>

text \<open>The separator of the insight strings: a space, U+2192 in UTF-8, a space.\<close>

definition arrow :: string where
  "arrow = '' '' @ [CHR 0xE2, CHR 0x86, CHR 0x92] @ '' ''"

text \<open>
  The insight of one key. The last branch prints the floats with \<^verbatim>\<open>repr\<close>, which is
  the parameter \<open>float_repr\<close>.
\<close>

definition insight :: "(real \<Rightarrow> string) \<Rightarrow> string \<Rightarrow> real \<Rightarrow> real \<Rightarrow> string" where
  "insight float_repr key prev_val cur_val =
     (if key = ''Phase''
      then ''Phase '' @ str_int (py_int prev_val) @ arrow @ str_int (py_int cur_val)
      else if key = ''Protocol''
      then ''Protocol v'' @ fmt_fixed 1 prev_val @ arrow @ ''v'' @ fmt_fixed 1 cur_val
      else if key = ''Enrollment''
      then ''Enrollment '' @ str_int (py_int prev_val) @ arrow @ str_int (py_int cur_val)
      else if key = ''Sites''
      then ''Sites '' @ str_int (py_int prev_val) @ arrow @ str_int (py_int cur_val)
      else if key = ''SAE''
      then ''SAE '' @ fmt_fixed 1 prev_val @ ''%'' @ arrow @ fmt_fixed 1 cur_val @ ''%''
      else if key = ''Adverse Event Rate''
      then ''Adverse Event Rate '' @ fmt_fixed 1 prev_val @ ''%'' @ arrow
           @ fmt_fixed 1 cur_val @ ''%''
      else if key = ''R&D''
      then ''R&D $'' @ fmt_fixed 1 prev_val @ ''B'' @ arrow @ ''$'' @ fmt_fixed 1 cur_val
           @ ''B''
      else if key = ''Program Cost''
      then ''Program Cost $'' @ str_int (py_int prev_val) @ ''M'' @ arrow @ ''$''
           @ str_int (py_int cur_val) @ ''M''
      else key @ '' '' @ float_repr prev_val @ arrow @ float_repr cur_val)"

text \<open>
  One round of the loop over the common keys: the normalised delta and the insight of a
  key whose two values differ by more than 0.01, nothing otherwise.
\<close>

definition delta_of_key ::
  "(real \<Rightarrow> string) \<Rightarrow> kpi_map \<Rightarrow> kpi_map \<Rightarrow> string \<Rightarrow> (real \<times> string) list" where
  "delta_of_key float_repr prev_kpis cur_kpis key =
     (case (map_of prev_kpis key, map_of cur_kpis key) of
        (Some prev_val, Some cur_val) \<Rightarrow>
          if 0.01 < \<bar>prev_val - cur_val\<bar>
          then (let denominator = max (max \<bar>prev_val\<bar> \<bar>cur_val\<bar>) 1
                in [(\<bar>cur_val - prev_val\<bar> / denominator,
                     insight float_repr key prev_val cur_val)])
          else []
      | _ \<Rightarrow> [])"

definition common_keys :: "kpi_map \<Rightarrow> kpi_map \<Rightarrow> string list" where
  "common_keys prev_kpis cur_kpis =
     sort (remdups (filter (\<lambda>k. k \<in> set (map fst cur_kpis)) (map fst prev_kpis)))"

definition compute_numeric_delta ::
  "(real \<Rightarrow> string) \<Rightarrow> kpi_map \<Rightarrow> kpi_map \<Rightarrow> real \<times> string list" where
  "compute_numeric_delta float_repr prev_kpis cur_kpis =
     (let found = concat (map (delta_of_key float_repr prev_kpis cur_kpis)
                    (common_keys prev_kpis cur_kpis));
          deltas = map fst found;
          insights = map snd found;
          mean_delta = (if deltas \<noteq> [] then sum_list deltas / real (length deltas) else 0)
      in (mean_delta, insights))"

section \<open>Importance scoring\<close>

subsection \<open>The recalibrated scoring of \<^verbatim>\<open>compare_texts.py\<close>\<close>

text \<open>
  The classification of \<^verbatim>\<open>recalibrated_scoring\<close> is made on the capped score, before
  the score is rounded for the result.
\<close>

definition domain_keywords :: "string list" where
  "domain_keywords = [''regulatory'', ''trial'', ''safety'', ''clinical'']"

definition recalibrated_scoring ::
  "real \<Rightarrow> real \<Rightarrow> int \<Rightarrow> string list \<Rightarrow> real \<Rightarrow> string \<Rightarrow> real \<times> string \<times> string" where
  "recalibrated_scoring similarity mean_numeric_delta keyword_hits critical_flags
       goal_alignment goal =
     (let text_term = (1 - similarity) * 0.55;
          num_term = min 1 mean_numeric_delta * 0.25;
          kw_term = min 1 (real_of_int keyword_hits / 5) * 0.10;
          crit_term = (if critical_flags \<noteq> [] then 1 else 0) * 0.10;
          align_term = goal_alignment * 0.05;
          base_score = text_term + num_term + kw_term + crit_term + align_term;
          score0 = 10 * base_score;
          goal_lower = lower goal;
          score1 = (if list_ex (\<lambda>kw. py_in kw goal_lower) domain_keywords
                    then score0 * 1.3 else score0);
          score = min 10 score1
      in if score < 4.5 then (py_round score 2, ''low'', ''low'')
         else if score < 7.0 then (py_round score 2, ''medium'', ''med'')
         else (py_round score 2, ''critical'', ''crit''))"

subsection \<open>The lightweight scoring of \<^verbatim>\<open>importance.py\<close>\<close>

definition DomainWeights :: "(string \<times> real) list" where
  "DomainWeights = [(''regulatory'', 1.2), (''safety'', 1.15), (''pricing'', 1.1)]"

text \<open>
  The rationale string of \<^verbatim>\<open>compute_importance_score\<close> is a log line built from the
  same numbers; only the score is modelled.
\<close>

definition compute_importance_score ::
  "int \<Rightarrow> int \<Rightarrow> real \<Rightarrow> real \<Rightarrow> string \<Rightarrow> string \<Rightarrow> string list \<Rightarrow> real" where
  "compute_importance_score text_added text_removed sim_text sim_visual goal domain keywords =
     (let base0 = (1 - sim_text) * 0.6 + (1 - sim_visual) * 0.4;
          key_hits = length (filter (\<lambda>k. py_in (lower k) (lower goal)) keywords);
          base = (if keywords \<noteq> [] \<and> key_hits \<noteq> 0 then base0 + 0.05 * real key_hits else base0);
          weight = (case map_of DomainWeights (lower domain) of Some w \<Rightarrow> w | None \<Rightarrow> 1);
          score = min 1 (base * weight)
      in py_round (score * 10) 2)"

definition label_from_score :: "real \<Rightarrow> string" where
  "label_from_score score =
     (if score < 4.5 then ''low'' else if score < 7.5 then ''medium'' else ''critical'')"

text \<open>The dictionary lookup of \<^verbatim>\<open>alert_from_label\<close> raises \<^verbatim>\<open>KeyError\<close> on any other label.\<close>

definition alert_from_label :: "string \<Rightarrow> string option" where
  "alert_from_label label =
     map_of [(''low'', ''low''), (''medium'', ''med''), (''critical'', ''crit'')] label"

subsection \<open>The multiplier as the specification words it\<close>

text \<open>
  A second definition, following the specification's words, to be compared with what
  \<^verbatim>\<open>recalibrated_scoring\<close> computes.
\<close>

definition goal_multiplier :: "string \<Rightarrow> real" where
  "goal_multiplier g =
     (if list_ex (\<lambda>kw. py_in kw (lower g)) [''regulatory'', ''trial'', ''safety'', ''clinical'']
      then 1.3 else 1)"

section \<open>What the engine takes from outside\<close>

text \<open>
  Byte strings are lists of characters too; an image is its size and its RGB pixels.
\<close>

type_synonym bytes = "char list"

record image =
  width :: nat
  height :: nat
  pixels :: "(nat \<times> nat \<times> nat) list"

text \<open>A JSON value, as \<^verbatim>\<open>json.loads\<close> returns it and \<^verbatim>\<open>json.dumps\<close> prints it.\<close>

datatype json =
  JNull
| JBool bool
| JNum real
| JStr string
| JArr "json list"
| JObj "(string \<times> json) list"

datatype opcode = Equal | Replace | Insert | Delete

text \<open>
  The functions of Pillow, base64, BeautifulSoup, difflib and json that the engine calls
  are parameters of the model. A decoder returns \<open>None\<close> where the library raises.
  \<^item> \<open>pil_open\<close>: \<^verbatim>\<open>Image.open(io.BytesIO(b)).convert("RGB")\<close>;
  \<^item> \<open>b64decode\<close>: \<^verbatim>\<open>base64.b64decode(s)\<close>;
  \<^item> \<open>gray_resize img w h i\<close>: pixel \<open>i\<close> of the image converted to grayscale and
    resized to \<open>w \<times> h\<close> with the Lanczos filter;
  \<^item> \<open>soup_text\<close>: the parse by BeautifulSoup, the removal of script, style and noscript
    elements, \<^verbatim>\<open>get_text(separator=" ")\<close> and \<^verbatim>\<open>html.unescape\<close>;
  \<^item> \<open>get_opcodes\<close>, \<open>ratio_words\<close>, \<open>ratio_chars\<close>: \<^verbatim>\<open>SequenceMatcher\<close> on two
    word lists and on two strings;
  \<^item> \<open>ndiff\<close>, \<open>unified_diff\<close>: the lines the two difflib generators yield;
  \<^item> \<open>json_loads\<close>: \<^verbatim>\<open>json.loads\<close>;
  \<^item> \<open>float_repr\<close>: \<^verbatim>\<open>repr\<close> of a float;
  \<^item> \<open>float_parse\<close>: \<^verbatim>\<open>float(s)\<close> on a string.
\<close>

record library =
  pil_open :: "bytes \<Rightarrow> image option"
  b64decode :: "string \<Rightarrow> bytes option"
  gray_resize :: "image \<Rightarrow> nat \<Rightarrow> nat \<Rightarrow> nat \<Rightarrow> nat"
  soup_text :: "string \<Rightarrow> string"
  get_opcodes :: "string list \<Rightarrow> string list \<Rightarrow> (opcode \<times> nat \<times> nat \<times> nat \<times> nat) list"
  ratio_words :: "string list \<Rightarrow> string list \<Rightarrow> real"
  ratio_chars :: "string \<Rightarrow> string \<Rightarrow> real"
  ndiff :: "string list \<Rightarrow> string list \<Rightarrow> string list"
  unified_diff :: "string list \<Rightarrow> string list \<Rightarrow> string list"
  json_loads :: "string \<Rightarrow> json option"
  float_repr :: "real \<Rightarrow> string"
  float_parse :: "string \<Rightarrow> real option"

text \<open>
  A request to the Bedrock model, by the parts of it that vary: the model, the goal, the
  two truncated documents and the visual similarity of the visual context, if any.
\<close>

record bedrock_request =
  req_model :: string
  req_goal :: string
  req_previous :: string
  req_current :: string
  req_visual :: "real option"

text \<open>
  The ambient state a call can read: environment variables, whether boto3 and Pillow
  import, the files on disk, what the Bedrock endpoint answers to a request (\<open>None\<close> where
  the call raises), and the clock.
\<close>

record environment =
  USE_BEDROCK :: "string option"
  BEDROCK_MODEL_ID :: "string option"
  VISUAL_WEIGHT :: "string option"
  BOTO3_AVAILABLE :: bool
  PIL_AVAILABLE :: bool
  files :: "string \<Rightarrow> bytes option"
  bedrock_adapter_reply :: "string \<Rightarrow> string option"
  bedrock_reply :: "bedrock_request \<Rightarrow> string option"
  utc_now :: string

datatype error =
  UnidentifiedImageError
| Base64Error
| TypeError
| AttributeError
| ValueError
| ValidationError

text \<open>\<^verbatim>\<open>os.getenv("USE_BEDROCK", "false").lower() == "true"\<close>\<close>

definition use_bedrock :: "environment \<Rightarrow> bool" where
  "use_bedrock env \<longleftrightarrow>
     lower (case USE_BEDROCK env of None \<Rightarrow> ''false'' | Some v \<Rightarrow> v) = ''true''"

definition model_id_of :: "environment \<Rightarrow> string" where
  "model_id_of env =
     (case BEDROCK_MODEL_ID env of
        None \<Rightarrow> ''anthropic.claude-3-5-sonnet-20240620-v1:0''
      | Some v \<Rightarrow> v)"

section \<open>Image loading and perceptual similarity (\<^verbatim>\<open>utils_image.py\<close>)\<close>

text \<open>An image reference is \<^verbatim>\<open>None\<close>, a byte string or a string.\<close>

datatype image_ref = NoRef | BytesRef bytes | StrRef string

text \<open>\<^verbatim>\<open>Image.new("RGB", (64, 64), "white")\<close>\<close>

definition blank_image :: image where
  "blank_image = \<lparr>width = 64, height = 64, pixels = replicate (64 * 64) (255, 255, 255)\<rparr>"

text \<open>
  \<^verbatim>\<open>re.sub("^data:image/.+;base64,", "", x)\<close>: the greedy \<^verbatim>\<open>.+\<close> takes at least one
  character other than the line feed.
\<close>

definition data_uri_re :: "string \<Rightarrow> string option" where
  "data_uri_re =
     lit ''data:image/'' (plus (\<lambda>c. c \<noteq> CHR 0x0A) (lit '';base64,'' (\<lambda>r. Some r)))"

definition strip_data_uri :: "string \<Rightarrow> string" where
  "strip_data_uri x = (case data_uri_re x of Some r \<Rightarrow> r | None \<Rightarrow> x)"

definition open_bytes :: "library \<Rightarrow> bytes \<Rightarrow> error + image" where
  "open_bytes lib b =
     (case pil_open lib b of None \<Rightarrow> Inl UnidentifiedImageError | Some img \<Rightarrow> Inr img)"

text \<open>
  \<^verbatim>\<open>load_image\<close>. Only the last branch, which reads the string as base64, sits in a
  \<^verbatim>\<open>try\<close>; what the branches before it raise leaves the function.
\<close>

definition load_image :: "library \<Rightarrow> environment \<Rightarrow> image_ref \<Rightarrow> error + image" where
  "load_image lib env x =
     (case x of
        NoRef \<Rightarrow> Inr blank_image
      | BytesRef b \<Rightarrow> open_bytes lib b
      | StrRef s \<Rightarrow>
          if s = [] then Inr blank_image
          else if prefix ''data:image'' (strip s)
          then (case b64decode lib (strip_data_uri s) of
                  None \<Rightarrow> Inl Base64Error
                | Some b \<Rightarrow> open_bytes lib b)
          else (case files env s of
                  Some content \<Rightarrow> open_bytes lib content
                | None \<Rightarrow>
                    (case b64decode lib s of
                       None \<Rightarrow> Inr blank_image
                     | Some b \<Rightarrow>
                         (case pil_open lib b of
                            None \<Rightarrow> Inr blank_image
                          | Some img \<Rightarrow> Inr img))))"

text \<open>
  \<^verbatim>\<open>_load_image\<close> of \<^verbatim>\<open>compare_texts.py\<close>, which takes a path or \<^verbatim>\<open>None\<close> and
  returns \<^verbatim>\<open>None\<close> for every failure.
\<close>

definition cli_load_image :: "library \<Rightarrow> environment \<Rightarrow> string option \<Rightarrow> image option" where
  "cli_load_image lib env path =
     (case path of
        None \<Rightarrow> None
      | Some p \<Rightarrow>
          if \<not> PIL_AVAILABLE env \<or> p = [] then None
          else (case files env p of None \<Rightarrow> None | Some content \<Rightarrow> pil_open lib content))"

text \<open>\<^verbatim>\<open>list(g.getdata())\<close> of the grayscale image resized to \<open>w \<times> h\<close>.\<close>

definition getdata :: "library \<Rightarrow> image \<Rightarrow> nat \<Rightarrow> nat \<Rightarrow> nat list" where
  "getdata lib img w h = map (gray_resize lib img w h) [0..<w * h]"

text \<open>\<^verbatim>\<open>int(bits, 2)\<close> on a list of bits, most significant first.\<close>

definition int_of_bits :: "bool list \<Rightarrow> nat" where
  "int_of_bits bits = foldl (\<lambda>n b. 2 * n + (if b then 1 else 0)) 0 bits"

definition ahash :: "library \<Rightarrow> image \<Rightarrow> nat" where
  "ahash lib img =
     (let px = getdata lib img 8 8;
          avg = real (sum_list px) / real (length px)
      in int_of_bits (map (\<lambda>p. avg < real p) px))"

text \<open>The rows of a list of pixels of width \<open>w\<close>.\<close>

fun rows :: "nat \<Rightarrow> nat \<Rightarrow> nat list \<Rightarrow> nat list list" where
  "rows w 0 px = []"
| "rows w (Suc h) px = take w px # rows w h (drop w px)"

definition row_bits :: "nat list \<Rightarrow> bool list" where
  "row_bits row = map (\<lambda>(a, b). b < a) (zip row (drop 1 row))"

definition dhash :: "library \<Rightarrow> image \<Rightarrow> nat" where
  "dhash lib img = int_of_bits (concat (map row_bits (rows 9 9 (getdata lib img 9 9))))"

text \<open>\<^verbatim>\<open>bin(a ^ b).count("1")\<close>\<close>

fun popcount :: "nat \<Rightarrow> nat" where
  "popcount n = (if n = 0 then 0 else n mod 2 + popcount (n div 2))"

declare popcount.simps [simp del]

definition hamming :: "nat \<Rightarrow> nat \<Rightarrow> nat" where
  "hamming a b = popcount (a XOR b)"

definition perceptual_similarity :: "library \<Rightarrow> image \<Rightarrow> image \<Rightarrow> real" where
  "perceptual_similarity lib prev_img cur_img =
     (let ah1 = ahash lib prev_img; ah2 = ahash lib cur_img;
          dh1 = dhash lib prev_img; dh2 = dhash lib cur_img;
          max_bits = 64;
          ah_diff = real (hamming ah1 ah2) / max_bits;
          dh_diff = real (hamming dh1 dh2) / max_bits;
          sim = 1 - (ah_diff + dh_diff) / 2
      in py_round (max 0 (min 1 sim)) 4)"

section \<open>Text extraction and diff statistics (\<^verbatim>\<open>utils_dom.py\<close>)\<close>

text \<open>\<^verbatim>\<open>re.sub(r"\s+", " ", text)\<close>: every run of whitespace becomes one space.\<close>

fun collapse_from :: "bool \<Rightarrow> string \<Rightarrow> string" where
  "collapse_from in_run [] = []"
| "collapse_from in_run (c # cs) =
     (if py_isspace c
      then (if in_run then collapse_from True cs else CHR '' '' # collapse_from True cs)
      else c # collapse_from False cs)"

definition collapse_spaces :: "string \<Rightarrow> string" where
  "collapse_spaces s = collapse_from False s"

definition extract_visible_text :: "library \<Rightarrow> string \<Rightarrow> string" where
  "extract_visible_text lib html_content =
     (if html_content = [] then []
      else strip (collapse_spaces (soup_text lib html_content)))"

text \<open>
  \<^verbatim>\<open>str.splitlines()\<close> on ASCII: a line ends at a line feed, a carriage return (with
  the line feed after it, if any), a vertical tab, a form feed or one of the separators
  0x1C..0x1E; no empty line follows the last line end.
\<close>

definition line_end :: "char \<Rightarrow> bool" where
  "line_end c \<longleftrightarrow> c \<in> set [CHR 0x0A, CHR 0x0B, CHR 0x0C, CHR 0x0D, CHR 0x1C, CHR 0x1D, CHR 0x1E]"

fun splitlines_from :: "string \<Rightarrow> string \<Rightarrow> string list" where
  "splitlines_from w [] = (if w = [] then [] else [rev w])"
| "splitlines_from w [c] = (if line_end c then [rev w] else [rev (c # w)])"
| "splitlines_from w (c # d # cs) =
     (if c = CHR 0x0D \<and> d = CHR 0x0A then rev w # splitlines_from [] cs
      else if line_end c then rev w # splitlines_from [] (d # cs)
      else splitlines_from (c # w) (d # cs))"

definition splitlines :: "string \<Rightarrow> string list" where
  "splitlines s = splitlines_from [] s"

text \<open>The loop over the opcodes: the words of the insert spans and of the delete spans.\<close>

fun count_opcodes :: "(opcode \<times> nat \<times> nat \<times> nat \<times> nat) list \<Rightarrow> int \<times> int" where
  "count_opcodes [] = (0, 0)"
| "count_opcodes ((tag, i1, i2, j1, j2) # ops) =
     (case count_opcodes ops of
        (added, removed) \<Rightarrow>
          if tag = Insert then (added + (int j2 - int j1), removed)
          else if tag = Delete then (added, removed + (int i2 - int i1))
          else (added, removed))"

definition text_diff_stats :: "library \<Rightarrow> string \<Rightarrow> string \<Rightarrow> int \<times> int \<times> nat \<times> real" where
  "text_diff_stats lib prev_text cur_text =
     (let prev_lines = split prev_text;
          cur_lines = split cur_text;
          (added, removed) = count_opcodes (get_opcodes lib prev_lines cur_lines);
          diff_lines = length (unified_diff lib (splitlines prev_text) (splitlines cur_text));
          similarity = py_round (ratio_words lib prev_lines cur_lines) 4
      in (added, removed, diff_lines, similarity))"

section \<open>The summary (\<^verbatim>\<open>llm_adapter.py\<close>)\<close>

definition nl :: string where
  "nl = [CHR 0x0A]"

definition build_diff_prompt ::
  "string \<Rightarrow> string \<Rightarrow> string \<Rightarrow> string \<Rightarrow> string \<Rightarrow> int \<Rightarrow> int \<Rightarrow> nat \<Rightarrow> string" where
  "build_diff_prompt url goal domain prev_snippet cur_snippet added removed diff_lines =
     nl @ ''You are an expert analyst. Compare previous vs current webpage snapshots.'' @ nl
     @ nl @ ''URL: '' @ url @ nl @ ''Goal: '' @ goal @ nl @ ''Domain: '' @ domain @ nl
     @ nl @ ''Stats:'' @ nl @ ''- text added: '' @ str_int added @ nl
     @ ''- text removed: '' @ str_int removed @ nl
     @ ''- total diff lines: '' @ str_nat diff_lines @ nl
     @ nl @ ''Previous snippet:'' @ nl @ ''<<<'' @ nl @ prev_snippet @ nl @ ''>>>'' @ nl
     @ nl @ ''Current snippet:'' @ nl @ ''<<<'' @ nl @ cur_snippet @ nl @ ''>>>'' @ nl
     @ nl @ ''Respond strictly in JSON with keys:'' @ nl @ ''summary_change (string)'' @ nl
     @ ''salient_points (list)'' @ nl @ ''keyword_hits (list)'' @ nl"

text \<open>
  \<^verbatim>\<open>re.search(r"\{.*\}", text, re.S)\<close>: from the first opening brace that has a closing
  brace after it, greedily to the last closing brace.
\<close>

definition brace_re :: "string \<Rightarrow> string option" where
  "brace_re = whole_match (\<lambda>k. lit ''{'' (star (\<lambda>c. True) (lit ''}'' k)))"

text \<open>
  \<^verbatim>\<open>summarize_with_llm\<close>: \<^verbatim>\<open>None\<close> when Bedrock is off, when the call or the parse
  raises, and when the reply holds no braces.
\<close>

definition summarize_with_llm :: "library \<Rightarrow> environment \<Rightarrow> string \<Rightarrow> json option" where
  "summarize_with_llm lib env prompt =
     (if \<not> use_bedrock env then None
      else (case bedrock_adapter_reply env prompt of
              None \<Rightarrow> None
            | Some text \<Rightarrow>
                (case re_search brace_re text of
                   None \<Rightarrow> None
                 | Some m \<Rightarrow> json_loads lib m)))"

definition local_summary_fallback ::
  "string \<Rightarrow> string \<Rightarrow> string \<Rightarrow> string \<Rightarrow> string \<Rightarrow> int \<Rightarrow> int \<Rightarrow> nat \<Rightarrow> json" where
  "local_summary_fallback url goal domain prev_text cur_text added removed diff_lines =
     (let change =
            (if added \<noteq> 0 \<and> removed = 0 then ''Added '' @ str_int added @ '' new words.''
             else if removed \<noteq> 0 \<and> added = 0 then ''Removed '' @ str_int removed @ '' words.''
             else if added \<noteq> 0 \<or> removed \<noteq> 0
             then str_int added @ '' added, '' @ str_int removed @ '' removed.''
             else ''Minor formatting change.'');
          summary = ''Content modified on '' @ domain @ '' page ('' @ url @ ''): '' @ change
                    @ '' ('' @ str_nat diff_lines @ '' diff lines).''
      in JObj [(''summary_change'', JStr summary), (''salient_points'', JArr []),
               (''keyword_hits'', JArr [])])"

text \<open>The truth value of a JSON value in a condition.\<close>

fun truthy :: "json \<Rightarrow> bool" where
  "truthy JNull = False"
| "truthy (JBool b) = b"
| "truthy (JNum x) = (x \<noteq> 0)"
| "truthy (JStr s) = (s \<noteq> [])"
| "truthy (JArr xs) = (xs \<noteq> [])"
| "truthy (JObj kvs) = (kvs \<noteq> [])"

text \<open>\<^verbatim>\<open>d.get(key, default)\<close>; on a value that is no dictionary it raises.\<close>

definition json_get :: "json \<Rightarrow> string \<Rightarrow> json \<Rightarrow> error + json" where
  "json_get d key dflt =
     (case d of
        JObj kvs \<Rightarrow> (case map_of kvs key of Some v \<Rightarrow> Inr v | None \<Rightarrow> Inr dflt)
      | _ \<Rightarrow> Inl AttributeError)"

section \<open>The result and the full pipeline (\<^verbatim>\<open>schemas.py\<close>, \<^verbatim>\<open>pipeline.py\<close>)\<close>

record ChangeResult =
  has_change :: bool
  text_added :: int
  text_removed :: int
  similarity :: real
  total_diff_lines :: nat
  summary_change :: string
  importance :: string
  import_score :: real
  alert_criteria :: string

text \<open>
  The constructor of the pydantic model checks the bounds and the vocabulary of the
  fields and raises \<^verbatim>\<open>ValidationError\<close> when one fails.
\<close>

definition make_ChangeResult ::
  "bool \<Rightarrow> int \<Rightarrow> int \<Rightarrow> real \<Rightarrow> nat \<Rightarrow> string \<Rightarrow> string \<Rightarrow> real \<Rightarrow> string
     \<Rightarrow> error + ChangeResult" where
  "make_ChangeResult hc added removed sim diff_lines summary label score alert =
     (if 0 \<le> added \<and> 0 \<le> removed \<and> 0 \<le> sim \<and> sim \<le> 1
         \<and> label \<in> set [''low'', ''medium'', ''critical'']
         \<and> 0 \<le> score \<and> score \<le> 10
         \<and> alert \<in> set [''low'', ''med'', ''crit'']
      then Inr \<lparr>has_change = hc, text_added = added, text_removed = removed,
                similarity = sim, total_diff_lines = diff_lines, summary_change = summary,
                importance = label, import_score = score, alert_criteria = alert\<rparr>
      else Inl ValidationError)"

text \<open>
  \<^verbatim>\<open>summary[:500]\<close> on what the summary dictionary holds: a string is cut, a list is cut
  and then refused by the model, any other value cannot be sliced.
\<close>

definition summary_of :: "json \<Rightarrow> error + string" where
  "summary_of v =
     (case v of
        JStr s \<Rightarrow> Inr (take 500 s)
      | JArr xs \<Rightarrow> Inl ValidationError
      | _ \<Rightarrow> Inl TypeError)"

definition analyze_change ::
  "library \<Rightarrow> environment \<Rightarrow> string \<Rightarrow> string \<Rightarrow> image_ref \<Rightarrow> image_ref \<Rightarrow> string \<Rightarrow> string
     \<Rightarrow> string \<Rightarrow> string list option \<Rightarrow> error + ChangeResult" where
  "analyze_change lib env prev_dom cur_dom prev_ss cur_ss goal domain url keywords =
     (case load_image lib env prev_ss of
        Inl e \<Rightarrow> Inl e
      | Inr prev_img \<Rightarrow>
     (case load_image lib env cur_ss of
        Inl e \<Rightarrow> Inl e
      | Inr cur_img \<Rightarrow>
     (let sim_visual = perceptual_similarity lib prev_img cur_img;
          prev_text = extract_visible_text lib prev_dom;
          cur_text = extract_visible_text lib cur_dom;
          (added, removed, diff_lines, sim_text) = text_diff_stats lib prev_text cur_text;
          (prev_snip, cur_snip) = short_context_snippets prev_text cur_text 800;
          prompt = build_diff_prompt url goal domain prev_snip cur_snip added removed
                     diff_lines;
          llm_res =
            (case summarize_with_llm lib env prompt of
               None \<Rightarrow>
                 local_summary_fallback url goal domain prev_text cur_text added removed
                   diff_lines
             | Some res \<Rightarrow>
                 if truthy res then res
                 else local_summary_fallback url goal domain prev_text cur_text added
                        removed diff_lines)
      in case json_get llm_res ''summary_change'' (JStr []) of
           Inl e \<Rightarrow> Inl e
         | Inr summary \<Rightarrow>
             (let score_10 = compute_importance_score added removed sim_text sim_visual goal
                               domain (case keywords of None \<Rightarrow> [] | Some ks \<Rightarrow> ks);
                  label = label_from_score score_10
              in case alert_from_label label of
                   None \<Rightarrow> Inl ValueError
                 | Some alert \<Rightarrow>
                     (let hc = (0 < added + removed \<or> sim_visual < 0.98);
                          sim = py_round (sim_text * 0.6 + sim_visual * 0.4) 4
                      in case summary_of summary of
                           Inl e \<Rightarrow> Inl e
                         | Inr s \<Rightarrow>
                             make_ChangeResult hc added removed sim diff_lines s label
                               score_10 alert)))))"

section \<open>The goal-aware analysis (\<^verbatim>\<open>compare_texts.py\<close>)\<close>

text \<open>
  The dictionary that \<^verbatim>\<open>enhanced_diff_analysis\<close> and \<^verbatim>\<open>run_bedrock_analysis\<close> return.
  The entries that the merge can take from the model's reply hold JSON values; the visual
  entries are absent until \<^verbatim>\<open>main\<close> adds them.
\<close>

record analysis =
  d_has_change :: json
  d_summary_change :: json
  d_text_added :: nat
  d_text_removed :: nat
  d_similarity :: json
  d_total_diff_lines :: nat
  d_importance :: string
  d_import_score :: real
  d_alert_criteria :: string
  d_key_insights :: json
  d_goal_alignment :: json
  d_reasoning :: json
  d_llm_used :: bool
  d_model_id :: "string option"
  d_analysis_timestamp :: string
  d_visual_used :: "bool option"
  d_visual_similarity :: "real option"
  d_visual_method :: "string option"

text \<open>\<^verbatim>\<open>list(dict.fromkeys(xs))\<close>: the first occurrence of every element, in order.\<close>

definition dedupe :: "'a list \<Rightarrow> 'a list" where
  "dedupe xs = rev (remdups (rev xs))"

text \<open>\<^verbatim>\<open>f"{x:.2%}"\<close>\<close>

definition fmt_percent :: "real \<Rightarrow> string" where
  "fmt_percent x = fmt_fixed 2 (x * 100) @ ''%''"

definition enhanced_diff_analysis ::
  "library \<Rightarrow> environment \<Rightarrow> string \<Rightarrow> string \<Rightarrow> string \<Rightarrow> analysis" where
  "enhanced_diff_analysis lib env goal prev_text cur_text =
     (let prev_tokens = split prev_text;
          cur_tokens = split cur_text;
          diff = ndiff lib prev_tokens cur_tokens;
          added = length (filter (prefix ''+ '') diff);
          removed = length (filter (\<lambda>line. \<not> prefix ''+ '' line \<and> prefix ''- '' line) diff);
          similarity = py_round (ratio_chars lib prev_text cur_text) 4;
          diff_lines = length (unified_diff lib (splitlines prev_text) (splitlines cur_text));
          prev_kpis = extract_numbers_with_labels prev_text;
          cur_kpis = extract_numbers_with_labels cur_text;
          (mean_numeric_delta, numeric_insights) =
            compute_numeric_delta (float_repr lib) prev_kpis cur_kpis;
          critical_flags = detect_critical_phrases prev_text cur_text;
          goal_keywords = compute_goal_keywords goal;
          keyword_hits = count_keyword_hits goal_keywords (prev_text @ cur_text)
                           numeric_insights;
          goal_alignment = 0.5;
          (score, label, alert) =
            recalibrated_scoring similarity mean_numeric_delta keyword_hits critical_flags
              goal_alignment goal;
          summary_parts =
            (if numeric_insights \<noteq> []
             then [''Key changes: '' @ join '', '' (take 4 numeric_insights)] else [])
            @ (if critical_flags \<noteq> []
               then [''Critical updates: '' @ join '', '' (take 3 critical_flags)] else [])
            @ [str_nat added @ '' tokens added, '' @ str_nat removed
               @ '' removed; similarity='' @ fmt_percent similarity];
          summary_change = join ''. '' summary_parts @ ''.'';
          key_insights0 = take 8 (dedupe (numeric_insights @ critical_flags));
          key_insights = (if key_insights0 = [] then [''Minor or no changes detected'']
                          else key_insights0);
          has_change = (0 < added + removed \<or> similarity < 0.98 \<or> critical_flags \<noteq> [])
      in \<lparr>d_has_change = JBool has_change,
          d_summary_change = JStr (take 500 summary_change),
          d_text_added = added,
          d_text_removed = removed,
          d_similarity = JNum similarity,
          d_total_diff_lines = diff_lines,
          d_importance = label,
          d_import_score = score,
          d_alert_criteria = alert,
          d_key_insights = JArr (map JStr key_insights),
          d_goal_alignment = JNum goal_alignment,
          d_reasoning = JStr (''Enhanced analysis: text dissimilarity=''
            @ fmt_percent (1 - similarity) @ '', numeric delta=''
            @ fmt_fixed 2 mean_numeric_delta @ '', keyword hits='' @ str_int keyword_hits
            @ '', critical flags='' @ str_nat (length critical_flags)),
          d_llm_used = False,
          d_model_id = None,
          d_analysis_timestamp = utc_now env,
          d_visual_used = None,
          d_visual_similarity = None,
          d_visual_method = None\<rparr>)"

subsection \<open>\<^verbatim>\<open>coerce_json\<close> of \<^verbatim>\<open>bedrock_prompt.py\<close>\<close>

text \<open>\<^verbatim>\<open>s.strip("`")\<close>\<close>

definition strip_ticks :: "string \<Rightarrow> string" where
  "strip_ticks s =
     rev (dropWhile (\<lambda>c. c = CHR 0x60) (rev (dropWhile (\<lambda>c. c = CHR 0x60) s)))"

text \<open>\<^verbatim>\<open>s.split("\n")\<close>: the pieces between line feeds, empty ones too.\<close>

fun split_lf :: "string \<Rightarrow> string \<Rightarrow> string list" where
  "split_lf w [] = [rev w]"
| "split_lf w (c # cs) =
     (if c = CHR 0x0A then rev w # split_lf [] cs else split_lf (c # w) cs)"

text \<open>\<^verbatim>\<open>s.find(c)\<close> and \<^verbatim>\<open>s.rfind(c)\<close> for one character; \<open>None\<close> is \<^verbatim>\<open>-1\<close>.\<close>

fun find_char :: "char \<Rightarrow> string \<Rightarrow> nat option" where
  "find_char x [] = None"
| "find_char x (c # cs) = (if c = x then Some 0 else map_option Suc (find_char x cs))"

definition rfind_char :: "char \<Rightarrow> string \<Rightarrow> nat option" where
  "rfind_char x s = map_option (\<lambda>i. length s - 1 - i) (find_char x (rev s))"

definition ticks :: string where
  "ticks = [CHR 0x60, CHR 0x60, CHR 0x60]"

definition coerce_json :: "library \<Rightarrow> string \<Rightarrow> json option" where
  "coerce_json lib response_text =
     (let text0 = strip response_text;
          text1 =
            (if prefix ticks text0
             then (let t = strip_ticks text0
                   in if CHR 0x0A \<in> set t
                      then (let lines = split_lf [] t
                            in if lower (strip (hd lines)) \<in> set [''json'', ''javascript'', []]
                               then join nl (tl lines) else t)
                      else t)
             else text0);
          text2 = (if suffix ticks text1 then take (length text1 - 3) text1 else text1);
          text3 = strip text2;
          text4 =
            (if \<not> prefix ''{'' text3
             then (case (find_char (CHR ''{'') text3, rfind_char (CHR ''}'') text3) of
                     (Some start, Some end) \<Rightarrow> take (end + 1 - start) (drop start text3)
                   | _ \<Rightarrow> text3)
             else text3)
      in json_loads lib text4)"

subsection \<open>\<^verbatim>\<open>run_bedrock_analysis\<close>\<close>

text \<open>A JSON value in arithmetic: a number, or a boolean as 0 or 1; anything else raises.\<close>

definition as_number :: "json \<Rightarrow> real option" where
  "as_number v =
     (case v of JNum x \<Rightarrow> Some x | JBool b \<Rightarrow> Some (if b then 1 else 0) | _ \<Rightarrow> None)"

definition lookup :: "(string \<times> json) list \<Rightarrow> string \<Rightarrow> json \<Rightarrow> json" where
  "lookup kvs key dflt = (case map_of kvs key of Some v \<Rightarrow> v | None \<Rightarrow> dflt)"

text \<open>
  The merge of the model's reply with the local result, and the score computed again
  from the merged similarity and goal alignment. \<open>None\<close> stands for the \<^verbatim>\<open>TypeError\<close>
  that a similarity or goal alignment outside the numbers raises in the scoring.
\<close>

definition merge_results ::
  "library \<Rightarrow> environment \<Rightarrow> string \<Rightarrow> string \<Rightarrow> string \<Rightarrow> (string \<times> json) list
     \<Rightarrow> analysis option" where
  "merge_results lib env goal prev_text cur_text llm_result =
     (let local_result = enhanced_diff_analysis lib env goal prev_text cur_text;
          merged_similarity = lookup llm_result ''similarity'' (d_similarity local_result);
          merged_alignment =
            lookup llm_result ''goal_alignment'' (d_goal_alignment local_result);
          prev_kpis = extract_numbers_with_labels prev_text;
          cur_kpis = extract_numbers_with_labels cur_text;
          mean_numeric_delta = fst (compute_numeric_delta (float_repr lib) prev_kpis cur_kpis);
          critical_flags = detect_critical_phrases prev_text cur_text;
          goal_keywords = compute_goal_keywords goal;
          keyword_hits = count_keyword_hits goal_keywords (prev_text @ cur_text) []
      in case (as_number merged_similarity, as_number merged_alignment) of
           (Some sim, Some align) \<Rightarrow>
             (case recalibrated_scoring sim mean_numeric_delta keyword_hits critical_flags
                     align goal of
                (score, label, alert) \<Rightarrow>
                  Some \<lparr>d_has_change =
                          lookup llm_result ''has_change'' (d_has_change local_result),
                        d_summary_change =
                          lookup llm_result ''summary_change'' (d_summary_change local_result),
                        d_text_added = d_text_added local_result,
                        d_text_removed = d_text_removed local_result,
                        d_similarity = merged_similarity,
                        d_total_diff_lines = d_total_diff_lines local_result,
                        d_importance = label,
                        d_import_score = score,
                        d_alert_criteria = alert,
                        d_key_insights =
                          lookup llm_result ''key_insights'' (d_key_insights local_result),
                        d_goal_alignment = merged_alignment,
                        d_reasoning =
                          lookup llm_result ''reasoning'' (d_reasoning local_result),
                        d_llm_used = True,
                        d_model_id = Some (model_id_of env),
                        d_analysis_timestamp = utc_now env,
                        d_visual_used = None,
                        d_visual_similarity = None,
                        d_visual_method = None\<rparr>)
         | _ \<Rightarrow> None)"

text \<open>
  \<^verbatim>\<open>run_bedrock_analysis\<close>: every exception inside the \<^verbatim>\<open>try\<close> (the call, the parse,
  a reply that is no dictionary, the scoring of a non-number) ends in the local analysis.
\<close>

definition run_bedrock_analysis ::
  "library \<Rightarrow> environment \<Rightarrow> string \<Rightarrow> string \<Rightarrow> string \<Rightarrow> real option \<Rightarrow> analysis" where
  "run_bedrock_analysis lib env goal prev_text cur_text visual_ctx =
     (if \<not> BOTO3_AVAILABLE env then enhanced_diff_analysis lib env goal prev_text cur_text
      else if \<not> use_bedrock env then enhanced_diff_analysis lib env goal prev_text cur_text
      else
        (case bedrock_reply env
                \<lparr>req_model = model_id_of env, req_goal = goal,
                 req_previous = smart_truncate prev_text 3500,
                 req_current = smart_truncate cur_text 3500,
                 req_visual = visual_ctx\<rparr> of
           None \<Rightarrow> enhanced_diff_analysis lib env goal prev_text cur_text
         | Some response_text \<Rightarrow>
             (case coerce_json lib response_text of
                Some (JObj llm_result) \<Rightarrow>
                  (case merge_results lib env goal prev_text cur_text llm_result of
                     Some merged \<Rightarrow> merged
                   | None \<Rightarrow> enhanced_diff_analysis lib env goal prev_text cur_text)
              | _ \<Rightarrow> enhanced_diff_analysis lib env goal prev_text cur_text)))"

subsection \<open>The visual blending at the end of \<^verbatim>\<open>main\<close>\<close>

text \<open>
  \<^verbatim>\<open>float(os.getenv("VISUAL_WEIGHT", "0.3"))\<close>, clamped to the interval from 0 to 0.5; a
  value that \<^verbatim>\<open>float\<close> refuses raises \<^verbatim>\<open>ValueError\<close>.
\<close>

definition visual_weight :: "library \<Rightarrow> environment \<Rightarrow> error + real" where
  "visual_weight lib env =
     (case VISUAL_WEIGHT env of
        None \<Rightarrow> Inr (max 0 (min 0.5 0.3))
      | Some v \<Rightarrow>
          (case float_parse lib v of
             None \<Rightarrow> Inl ValueError
           | Some vw \<Rightarrow> Inr (max 0 (min 0.5 vw))))"

definition sim_combined :: "real \<Rightarrow> real \<Rightarrow> real \<Rightarrow> real" where
  "sim_combined vw text_sim visual_similarity = (1 - vw) * text_sim + vw * visual_similarity"

text \<open>The em dash of the summary prefix in UTF-8.\<close>

definition em_dash :: string where
  "em_dash = [CHR 0xE2, CHR 0x80, CHR 0x94]"

text \<open>
  The branch of \<^verbatim>\<open>main\<close> for a computed visual similarity: the score and the labels are
  computed again from the combined similarity, the summary gets its prefix, the
  similarity entry stays as it is.
\<close>

definition visual_blend :: "library \<Rightarrow> environment \<Rightarrow> analysis \<Rightarrow> real \<Rightarrow> error + analysis" where
  "visual_blend lib env result visual_similarity =
     (case visual_weight lib env of
        Inl e \<Rightarrow> Inl e
      | Inr vw \<Rightarrow>
          (case as_number (d_similarity result) of
             None \<Rightarrow> Inl TypeError
           | Some text_sim \<Rightarrow>
               (let combined = sim_combined vw text_sim visual_similarity;
                    score = min 10 (py_round ((1 - combined) * 10) 2);
                    (label, alert) =
                      (if score < 4.5 then (''low'', ''low'')
                       else if score < 7.0 then (''medium'', ''med'')
                       else (''critical'', ''crit''));
                    vsim_level =
                      (if 0.85 < visual_similarity then ''minor''
                       else if 0.65 < visual_similarity then ''moderate''
                       else ''significant'');
                    visual_prefix = ''[visual] similarity='' @ fmt_fixed 2 visual_similarity
                      @ '' ('' @ vsim_level @ '') '' @ em_dash @ '' ''
                in case d_summary_change result of
                     JStr existing_summary \<Rightarrow>
                       Inr (result\<lparr>d_import_score := score,
                                   d_importance := label,
                                   d_alert_criteria := alert,
                                   d_summary_change := JStr (visual_prefix @ existing_summary),
                                   d_visual_used := Some True,
                                   d_visual_similarity := Some visual_similarity,
                                   d_visual_method := Some ''ahash+dhash+rms''\<rparr>)
                   | _ \<Rightarrow> Inl TypeError)))"

section \<open>A stand-in library and environment\<close>

text \<open>
  To run the model on concrete inputs the library parameters need values. The stand-ins
  decode nothing, read every image as uniformly white, take as the text of a page what
  stands outside its angle brackets, compare two word lists as equal or as wholly
  replaced, and parse one JSON text.
\<close>

fun outside_tags :: "bool \<Rightarrow> string \<Rightarrow> string" where
  "outside_tags in_tag [] = []"
| "outside_tags in_tag (c # cs) =
     (if c = CHR ''<'' then outside_tags True cs
      else if c = CHR ''>'' then outside_tags False cs
      else if in_tag then outside_tags True cs
      else c # outside_tags False cs)"

definition demo_library :: library where
  "demo_library =
     \<lparr>pil_open = (\<lambda>b. None),
      b64decode = (\<lambda>s. None),
      gray_resize = (\<lambda>img w h i. 255),
      soup_text = outside_tags False,
      get_opcodes = (\<lambda>a b. if a = b then [(Equal, 0, length a, 0, length b)]
                            else [(Replace, 0, length a, 0, length b)]),
      ratio_words = (\<lambda>a b. if a = b then 1 else 0),
      ratio_chars = (\<lambda>a b. if a = b then 1 else 0),
      ndiff = (\<lambda>a b. if a = b then map (\<lambda>w. ''  '' @ w) a
                      else map (\<lambda>w. ''- '' @ w) a @ map (\<lambda>w. ''+ '' @ w) b),
      unified_diff = (\<lambda>a b. if a = b then []
                             else [''---'', ''+++'', ''@@''] @ map (\<lambda>l. CHR ''-'' # l) a
                                  @ map (\<lambda>l. CHR ''+'' # l) b),
      json_loads = (\<lambda>s. if s = ''{\"similarity\": 5, \"goal_alignment\": -1}''
                         then Some (JObj [(''similarity'', JNum 5), (''goal_alignment'', JNum (- 1))])
                         else None),
      float_repr = (\<lambda>x. []),
      float_parse = (\<lambda>s. None)\<rparr>"

definition demo_environment :: "bool \<Rightarrow> string \<Rightarrow> environment" where
  "demo_environment on now =
     \<lparr>USE_BEDROCK = (if on then Some ''true'' else None),
      BEDROCK_MODEL_ID = None,
      VISUAL_WEIGHT = None,
      BOTO3_AVAILABLE = True,
      PIL_AVAILABLE = True,
      files = (\<lambda>p. None),
      bedrock_adapter_reply = (\<lambda>p. None),
      bedrock_reply = (\<lambda>r. Some ''{\"similarity\": 5, \"goal_alignment\": -1}''),
      utc_now = now\<rparr>"

section \<open>Verified properties\<close>

subsection \<open>Rounding\<close>

lemma py_round_mono: "x \<le> y \<Longrightarrow> py_round x n \<le> py_round y n"
proof -
  have m: "round_half_even a \<le> round_half_even b" if ab: "a \<le> b" for a b :: real
  proof (cases "\<lfloor>a\<rfloor> = \<lfloor>b\<rfloor>")
    case True
    with ab show ?thesis
      by (auto simp: round_half_even_def Let_def)
  next
    case False
    with ab have "\<lfloor>a\<rfloor> < \<lfloor>b\<rfloor>"
      by (simp add: floor_mono order.not_eq_order_implies_strict)
    then have "\<lfloor>a\<rfloor> + 1 \<le> \<lfloor>b\<rfloor>"
      by simp
    moreover have "round_half_even a \<le> \<lfloor>a\<rfloor> + 1"
      by (simp add: round_half_even_def Let_def)
    moreover have "\<lfloor>b\<rfloor> \<le> round_half_even b"
      by (simp add: round_half_even_def Let_def)
    ultimately show ?thesis
      by linarith
  qed
  assume "x \<le> y"
  then have "x * 10 ^ n \<le> y * 10 ^ n"
    by (simp add: mult_right_mono)
  then have "round_half_even (x * 10 ^ n) \<le> round_half_even (y * 10 ^ n)"
    by (rule m)
  then show ?thesis
    by (simp add: py_round_def divide_right_mono)
qed

lemma round_half_even_of_int: "round_half_even (of_int k) = k"
  by (simp add: round_half_even_def)

lemma py_round_of_int: "py_round (of_int k) n = of_int k"
proof -
  have "of_int k * (10::real) ^ n = of_int (k * 10 ^ n)"
    by simp
  then have "round_half_even (of_int k * 10 ^ n) = k * 10 ^ n"
    using round_half_even_of_int [of "k * 10 ^ n"] by simp
  then show ?thesis
    by (simp add: py_round_def)
qed

lemma py_round_0: "py_round 0 n = 0"
  using py_round_of_int [of 0 n] by simp

lemma py_round_10: "py_round 10 n = 10"
  using py_round_of_int [of 10 n] by simp

text \<open>
  C1. For every similarity, mean numeric delta, keyword-hit count, critical-phrase list,
  goal alignment and goal string, the score returned by the primary scoring function is
  \<open>round (min 10 (m * 10 * base)) 2\<close>, where \<open>base\<close> is the weighted sum with the fixed
  weights 0.55, 0.25, 0.10, 0.10 and 0.05 and \<open>m\<close> is 1.3 when the goal contains one of
  "regulatory", "trial", "safety", "clinical" as a case-insensitive substring and 1
  otherwise.
\<close>

theorem recalibrated_scoring_formula:
  "fst (recalibrated_scoring s d k c a g) =
     py_round (min 10 (goal_multiplier g * 10 *
       ((1 - s) * 0.55 + min 1 d * 0.25 + min 1 (real_of_int k / 5) * 0.10
         + (if c \<noteq> [] then 1 else 0) * 0.10 + a * 0.05))) 2"
proof -
  let ?b = "(1 - s) * 0.55 + min 1 d * 0.25 + min 1 (real_of_int k / 5) * 0.10
         + (if c \<noteq> [] then 1 else 0) * 0.10 + a * 0.05"
  have m: "goal_multiplier g * 10 * ?b =
      (if list_ex (\<lambda>kw. py_in kw (lower g)) domain_keywords then 10 * ?b * 1.3 else 10 * ?b)"
    unfolding goal_multiplier_def domain_keywords_def
    by (simp only: if_distribR split: if_split) simp
  show ?thesis
    unfolding m recalibrated_scoring_def Let_def
    by (simp only: fst_conv if_distrib [of fst] if_cancel)
qed

subsection \<open>Snippet truncation\<close>


lemma strip_ends:
  assumes "strip s \<noteq> []"
  shows "\<not> py_isspace (hd (strip s))" and "\<not> py_isspace (last (strip s))"
proof -
  let ?u = "dropWhile py_isspace s"
  let ?v = "dropWhile py_isspace (rev ?u)"
  have sv: "strip s = rev ?v"
    by (simp add: strip_def)
  with assms have v: "?v \<noteq> []"
    by simp
  have u: "?u \<noteq> []"
  proof
    assume "?u = []"
    then have "?v = []" by (simp only: rev.simps dropWhile.simps)
    with v show False by simp
  qed
  from v have "\<not> py_isspace (hd ?v)"
    by (rule hd_dropWhile)
  then show "\<not> py_isspace (last (strip s))"
    using v by (simp add: sv last_rev)
  have "rev ?u = takeWhile py_isspace (rev ?u) @ ?v"
    by simp
  then have "last (rev ?u) = last ?v"
    using v by (metis last_appendR)
  then have "last ?v = hd ?u"
    using u by (simp add: last_rev)
  moreover from u have "\<not> py_isspace (hd ?u)"
    by (rule hd_dropWhile)
  ultimately show "\<not> py_isspace (hd (strip s))"
    using v by (simp add: sv hd_rev)
qed

lemma strip_fixed:
  assumes "s \<noteq> []" "\<not> py_isspace (hd s)" "\<not> py_isspace (last s)"
  shows "strip s = s"
proof -
  from assms have a: "dropWhile py_isspace s = s"
    by (cases s) auto
  from assms have "dropWhile py_isspace (rev s) = rev s"
    by (cases "rev s") (auto simp: last_rev [symmetric] hd_rev)
  with a show ?thesis
    by (simp add: strip_def)
qed

lemma strip_Nil: "strip [] = []"
  by (simp add: strip_def)

lemma strip_idem: "strip (strip s) = strip s"
proof (cases "strip s = []")
  case True
  then show ?thesis by (simp add: strip_Nil)
next
  case False
  then show ?thesis
    by (intro strip_fixed strip_ends)
qed

lemma length_strip: "length (strip s) \<le> length s"
proof -
  have "length (strip s) \<le> length (dropWhile py_isspace s)"
    unfolding strip_def length_rev
    by (metis length_dropWhile_le length_rev)
  also have "\<dots> \<le> length s"
    by (rule length_dropWhile_le)
  finally show ?thesis .
qed

text \<open>Cutting a string that is already head, marker, tail gives it back.\<close>

lemma cut_again:
  assumes a: "a \<noteq> []" "\<not> py_isspace (hd a)"
    and b: "b \<noteq> []" "\<not> py_isspace (last b)"
  shows "strip (a @ m @ b) = a @ m @ b"
    and "slice_to (int (length a)) (a @ m @ b) = a"
    and "slice_from (- int (length b)) (a @ m @ b) = b"
proof -
  show "strip (a @ m @ b) = a @ m @ b"
    using a b by (intro strip_fixed) auto
  show "slice_to (int (length a)) (a @ m @ b) = a"
    by (simp add: slice_to_def)
  show "slice_from (- int (length b)) (a @ m @ b) = b"
    using b by (simp add: slice_from_def)
qed

lemma trim_idem:
  assumes m: "2 \<le> m"
  shows "trim m (trim m t) = trim m t"
proof (cases "int (length (strip t)) \<le> m")
  case True
  then show ?thesis
    by (simp add: trim_def Let_def strip_idem)
next
  case False
  define s where "s = strip t"
  define h where "h = nat (m div 2)"
  define a where "a = take h s"
  define b where "b = drop (length s - h) s"
  from False have long: "m < int (length s)"
    by (simp add: s_def)
  from m have h1: "1 \<le> h" and hm: "int h = m div 2"
    by (auto simp: h_def)
  from long m have hs: "h < length s"
    unfolding h_def by linarith
  have s: "s \<noteq> []"
    using hs by auto
  then have ends: "\<not> py_isspace (hd s)" "\<not> py_isspace (last s)"
    unfolding s_def by (rule strip_ends)+
  have la: "length a = h" and lb: "length b = h"
    using hs by (auto simp: a_def b_def)
  have a: "a \<noteq> []" "\<not> py_isspace (hd a)"
    using h1 s ends la by (auto simp: a_def hd_take)
  have b: "b \<noteq> []" "\<not> py_isspace (last b)"
    using h1 s ends lb hs by (auto simp: b_def)
  have half: "0 \<le> m div 2" "\<not> 0 \<le> - (m div 2)" "nat (m div 2) = h"
    using m by (auto simp: h_def)
  have "slice_to (m div 2) s = a" "slice_from (- (m div 2)) s = b"
    unfolding slice_to_def slice_from_def a_def b_def using half by simp_all
  then have r: "trim m t = a @ '' ... '' @ b"
    using long unfolding trim_def Let_def s_def [symmetric] by simp
  have len: "\<not> int (length (a @ '' ... '' @ b)) \<le> m"
    using la lb hm by simp
  have "trim m (a @ '' ... '' @ b) =
      slice_to (m div 2) (a @ '' ... '' @ b) @ '' ... '' @ slice_from (- (m div 2)) (a @ '' ... '' @ b)"
    unfolding trim_def Let_def cut_again(1) [OF a b] using len by simp
  also have "\<dots> = a @ '' ... '' @ b"
    using cut_again(2,3) [OF a b, of "'' ... ''"] la lb hm by simp
  finally show ?thesis
    by (simp add: r)
qed

lemma trim_short:
  assumes "int (length t) \<le> m" "strip t = t"
  shows "trim m t = t"
  using assms by (simp add: trim_def)

lemma smart_truncate_idem:
  assumes m: "3 \<le> m"
  shows "smart_truncate (smart_truncate t m) m = smart_truncate t m"
proof (cases "int (length (strip t)) \<le> m")
  case True
  then show ?thesis
    by (simp add: smart_truncate_def Let_def strip_idem)
next
  case False
  define s where "s = strip t"
  define f where "f = py_int (real_of_int m * 0.6)"
  define l where "l = py_int (real_of_int m * 0.4)"
  define a where "a = take (nat f) s"
  define b where "b = drop (length s - nat l) s"
  from False have long: "m < int (length s)"
    by (simp add: s_def)
  have f: "f = \<lfloor>real_of_int m * 0.6\<rfloor>" and l: "l = \<lfloor>real_of_int m * 0.4\<rfloor>"
    using m by (simp_all add: f_def l_def py_int_def)
  have f1: "1 \<le> f" and fm: "f \<le> m"
    unfolding f using m by (simp_all add: le_floor_iff floor_le_iff)
  have l1: "1 \<le> l" and lm: "l \<le> m"
    unfolding l using m by (simp_all add: le_floor_iff floor_le_iff)
  have "real_of_int m * 0.6 < real_of_int f + 1" "real_of_int m * 0.4 < real_of_int l + 1"
    unfolding f l by linarith+
  then have "real_of_int m < real_of_int (f + l + 2)"
    by simp
  then have sum: "m < f + l + 2"
    by (simp only: of_int_less_iff)
  have s: "s \<noteq> []"
    using long m by auto
  then have ends: "\<not> py_isspace (hd s)" "\<not> py_isspace (last s)"
    unfolding s_def by (rule strip_ends)+
  have la: "int (length a) = f" and lb: "int (length b) = l"
    using long f1 fm l1 lm by (auto simp: a_def b_def)
  have a: "a \<noteq> []" "\<not> py_isspace (hd a)"
    using f1 s ends la by (auto simp: a_def hd_take)
  have b: "b \<noteq> []" "\<not> py_isspace (last b)"
    using l1 s ends lb long lm by (auto simp: b_def)
  have "slice_to f s = a" "slice_from (- l) s = b"
    unfolding slice_to_def slice_from_def a_def b_def using f1 l1 by simp_all
  then have r: "smart_truncate t m = a @ truncation_marker @ b"
    using long unfolding smart_truncate_def Let_def s_def [symmetric] f_def [symmetric]
      l_def [symmetric] by simp
  have "length truncation_marker = 31"
    by (simp add: truncation_marker_def)
  then have len: "\<not> int (length (a @ truncation_marker @ b)) \<le> m"
    using la lb sum by simp
  have "smart_truncate (a @ truncation_marker @ b) m =
      slice_to f (a @ truncation_marker @ b) @ truncation_marker
        @ slice_from (- l) (a @ truncation_marker @ b)"
    unfolding smart_truncate_def Let_def cut_again(1) [OF a b] f_def [symmetric]
      l_def [symmetric] using len by simp
  also have "\<dots> = a @ truncation_marker @ b"
    using cut_again(2,3) [OF a b, of truncation_marker] la lb by simp
  finally show ?thesis
    by (simp add: r)
qed

lemma smart_truncate_short:
  assumes "int (length t) \<le> m" "strip t = t"
  shows "smart_truncate t m = t"
  using assms by (simp add: smart_truncate_def)

text \<open>
  C8 (as amended). Both truncation functions first strip surrounding whitespace, so a
  string within the limit is returned unchanged only when it has none. Truncation is
  idempotent for every limit of at least 2 (\<^verbatim>\<open>short_context_snippets\<close>) and at
  least 3 (\<^verbatim>\<open>_smart_truncate\<close>): truncating a truncated text again gives it back.
  The proof for \<^verbatim>\<open>_smart_truncate\<close> uses of the two part lengths only that each is
  between 1 and the limit and that together with the marker they exceed the limit.
\<close>

theorem truncation_idempotent:
  "(2 \<le> m \<longrightarrow>
      (case short_context_snippets p c m of (p', c') \<Rightarrow>
         short_context_snippets p' c' m = (p', c')))
   \<and> (3 \<le> m \<longrightarrow> smart_truncate (smart_truncate t m) m = smart_truncate t m)
   \<and> (int (length t) \<le> m \<and> strip t = t \<longrightarrow>
        short_context_snippets t t m = (t, t) \<and> smart_truncate t m = t)"
  by (simp add: short_context_snippets_def trim_idem smart_truncate_idem trim_short
      smart_truncate_short)

text \<open>The theorem at the limit 6, on a long and on a short text.\<close>

theorem truncation_idempotent_witness:
  "(2::int) \<le> 6 \<and> (3::int) \<le> 6
   \<and> short_context_snippets ''abcdefghij'' '' xy '' 6 = (''abc ... hij'', ''xy'')
   \<and> short_context_snippets ''abc ... hij'' ''xy'' 6 = (''abc ... hij'', ''xy'')
   \<and> smart_truncate (smart_truncate ''abcdefghij'' 6) 6 = smart_truncate ''abcdefghij'' 6
   \<and> int (length ''abcdef'') \<le> 6 \<and> strip ''abcdef'' = ''abcdef''
   \<and> short_context_snippets ''abcdef'' ''abcdef'' 6 = (''abcdef'', ''abcdef'')
   \<and> smart_truncate ''abcdef'' 6 = ''abcdef''"
proof -
  have e: "short_context_snippets ''abcdefghij'' '' xy '' 6 = (''abc ... hij'', ''xy'')"
    by (simp add: short_context_snippets_def trim_def strip_def py_isspace_def slice_to_def
        slice_from_def)
  have s: "strip ''abcdef'' = ''abcdef''"
    by (simp add: strip_def py_isspace_def)
  show ?thesis
    using truncation_idempotent [of 6 "''abcdefghij''" "'' xy ''" "''abcdefghij''"]
      truncation_idempotent [of 6 "''abcdef''" "''abcdef''" "''abcdef''"] e s
    by simp
qed

text \<open>
  A string within the limit that starts with a space comes back without it, and with the
  limit 1 the second truncation differs from the first.
\<close>

theorem snippet_unchanged_counterexample:
  "\<not> (\<forall>t m. int (length t) \<le> m \<longrightarrow> fst (short_context_snippets t t m) = t)
   \<and> \<not> (\<forall>t m. int (length t) > m \<longrightarrow>
          trim m (trim m t) = trim m t)"
proof -
  have "fst (short_context_snippets '' a'' '' a'' 5) = ''a''"
    by (simp add: short_context_snippets_def trim_def strip_def py_isspace_def)
  then have "\<not> (int (length '' a'') \<le> 5 \<longrightarrow>
      fst (short_context_snippets '' a'' '' a'' 5) = '' a'')"
    by simp
  then have a: "\<not> (\<forall>t m. int (length t) \<le> m \<longrightarrow> fst (short_context_snippets t t m) = t)"
    by blast
  have "trim 1 ''abc'' = '' ... abc''" "trim 1 '' ... abc'' = '' ... ... abc''"
    by (simp_all add: trim_def strip_def py_isspace_def slice_to_def slice_from_def)
  then have "\<not> (int (length ''abc'') > 1 \<longrightarrow> trim 1 (trim 1 ''abc'') = trim 1 ''abc'')"
    by simp
  then have "\<not> (\<forall>t m. int (length t) > m \<longrightarrow> trim m (trim m t) = trim m t)"
    by blast
  with a show ?thesis ..
qed

subsection \<open>The phase indicator and its delta\<close>

lemma py_in_sublist: "py_in w s \<longleftrightarrow> sublist w s"
  by (induction s) (simp_all add: sublist_Cons_right)

lemma py_in_appendI2: "py_in w y \<Longrightarrow> py_in w (x @ y)"
  by (induction x) simp_all

lemma py_in_prefixI: "prefix w s \<Longrightarrow> py_in w s"
  by (cases s) simp_all

lemma lower_not_upper:
  "l \<in> set ''abcdefghijklmnopqrstuvwxyz'' \<Longrightarrow> l \<notin> set ''ABCDEFGHIJKLMNOPQRSTUVWXYZ''"
  by auto

lemma char_lower_idem: "char_lower (char_lower c) = char_lower c"
proof (cases "map_of (zip ''ABCDEFGHIJKLMNOPQRSTUVWXYZ'' ''abcdefghijklmnopqrstuvwxyz'') c")
  case None
  then show ?thesis unfolding char_lower_def by (simp only: option.case)
next
  case (Some l)
  then have "(c, l) \<in> set (zip ''ABCDEFGHIJKLMNOPQRSTUVWXYZ'' ''abcdefghijklmnopqrstuvwxyz'')"
    by (rule map_of_SomeD)
  then have "l \<in> set ''abcdefghijklmnopqrstuvwxyz''"
    by (rule set_zip_rightD)
  then have "l \<notin> set ''ABCDEFGHIJKLMNOPQRSTUVWXYZ''"
    by (rule lower_not_upper)
  then have "map_of (zip ''ABCDEFGHIJKLMNOPQRSTUVWXYZ'' ''abcdefghijklmnopqrstuvwxyz'') l = None"
    by (subst map_of_zip_is_None) simp_all
  with Some show ?thesis unfolding char_lower_def by (simp only: option.case)
qed

lemma lower_idem: "lower (lower s) = lower s"
  by (simp add: lower_def char_lower_idem)

lemma lower_append_eq:
  assumes "lower (x @ y) = x @ y"
  shows "lower x = x" and "lower y = y"
proof -
  from assms have "lower x @ lower y = x @ y"
    by (simp add: lower_def)
  moreover have "length (lower x) = length x"
    by (simp add: lower_def)
  ultimately have "lower x = x \<and> lower y = y"
    using append_eq_append_conv [of "lower x" x "lower y" y] by blast
  then show "lower x = x" and "lower y = y"
    by blast+
qed

text \<open>The word "phase" cannot begin inside a text that does not contain it, when "phase" follows.\<close>

lemma phase_border:
  assumes "prefix ''phase'' (a @ ''phase'' @ r)" "a \<noteq> []"
  shows "prefix ''phase'' a"
proof -
  define b where "b = ''phase'' @ r"
  from assms(1) have "prefix ''phase'' a \<or> (\<exists>us. ''phase'' = a @ us \<and> prefix us b)"
    unfolding b_def [symmetric] by (simp only: prefix_append)
  then show ?thesis
  proof
    assume "prefix ''phase'' a"
    then show ?thesis .
  next
    assume "\<exists>us. ''phase'' = a @ us \<and> prefix us b"
    then obtain us where us: "''phase'' = a @ us" "prefix us b"
      by blast
    from us(1) assms(2) have "us \<in> {''hase'', ''ase'', ''se'', ''e'', []}"
      by (auto simp: Cons_eq_append_conv)
    moreover have "\<not> prefix ''hase'' b" "\<not> prefix ''ase'' b" "\<not> prefix ''se'' b"
      "\<not> prefix ''e'' b"
      by (simp_all add: b_def)
    ultimately have "us = []"
      using us(2) by auto
    with us(1) show ?thesis
      by simp
  qed
qed

lemma no_phase_start:
  assumes "\<not> py_in ''phase'' (c # cs)"
  shows "\<not> prefix ''phase'' (c # cs @ ''phase'' @ r)"
proof
  assume "prefix ''phase'' (c # cs @ ''phase'' @ r)"
  then have "prefix ''phase'' ((c # cs) @ ''phase'' @ r)"
    by (simp only: append_Cons)
  then have "prefix ''phase'' (c # cs)"
    by (rule phase_border) simp
  then have "py_in ''phase'' (c # cs)"
    by (rule py_in_prefixI)
  with assms show False ..
qed

lemma py_in_suffix: "\<not> py_in w (x @ y) \<Longrightarrow> \<not> py_in w y"
  using py_in_appendI2 by blast

lemma prefix_avoiding:
  assumes "prefix w (a @ c # b)" "c \<notin> set w"
  shows "prefix w a"
proof -
  from assms(1) have "prefix w a \<or> (\<exists>us. w = a @ us \<and> prefix us (c # b))"
    by (simp only: prefix_append)
  then show ?thesis
  proof
    assume "\<exists>us. w = a @ us \<and> prefix us (c # b)"
    then obtain us where us: "w = a @ us" "prefix us (c # b)"
      by blast
    show ?thesis
    proof (cases us)
      case Nil
      with us(1) show ?thesis by simp
    next
      case (Cons u us')
      with us(2) have "u = c" by simp
      with Cons us(1) assms(2) show ?thesis by simp
    qed
  qed
qed

text \<open>The end of the overview pattern on the phase mention itself.\<close>

lemma phase_tail_hit:
  assumes "d = CHR ''2'' \<or> d = CHR ''3''"
  shows "lit ''phase''
           (star py_isspace
             (alts (map lit [''iii'', ''3'', ''ii'', ''2'', ''iv'', ''4'', ''i'', ''1'']) k))
           (''phase '' @ d # r) = k r"
  using assms by (cases "k r") (auto simp: lit_def alts_def py_isspace_def)

lemma lit_None: "\<not> prefix w s \<Longrightarrow> lit w k s = None"
  by (simp add: lit_def)

lemma lit_hit: "lit w k (w @ s) = k s"
  by (simp add: lit_def)

lemma lazy_star_hit: "k s = Some g \<Longrightarrow> lazy_star P k s = Some g"
  by (cases s) simp_all

lemma lazy_star_skip:
  "k (c # cs) = None \<Longrightarrow> lazy_star P k (c # cs) = (if P c then lazy_star P k cs else None)"
  by simp

lemma no_phase_start':
  assumes "\<not> py_in ''phase'' (c # cs)" "t = ''phase'' @ r"
  shows "\<not> prefix ''phase'' (c # cs @ t)"
  unfolding assms(2) using assms(1) by (rule no_phase_start)

lemma lazy_reach:
  assumes "\<not> py_in ''phase'' a" "k r = Some g" "d = CHR ''2'' \<or> d = CHR ''3''"
    and t: "t = ''phase '' @ d # r"
  shows "lazy_star (\<lambda>c. c \<noteq> CHR ''.'')
           (lit ''phase''
             (star py_isspace
               (alts (map lit [''iii'', ''3'', ''ii'', ''2'', ''iv'', ''4'', ''i'', ''1'']) k)))
           (a @ t) = (if CHR ''.'' \<in> set a then None else Some g)"
    (is "lazy_star ?P ?T _ = _")
proof -
  have tp: "t = ''phase'' @ ('' '' @ d # r)"
    by (simp add: t)
  have "?T t = k r"
    unfolding t by (rule phase_tail_hit [OF assms(3)])
  then have hit: "?T t = Some g"
    by (simp only: assms(2))
  show ?thesis
    using assms(1)
  proof (induction a)
    case Nil
    from hit have "lazy_star ?P ?T t = Some g"
      by (rule lazy_star_hit)
    then show ?case by simp
  next
    case (Cons c cs)
    from Cons.prems tp have "\<not> prefix ''phase'' (c # cs @ t)"
      by (rule no_phase_start')
    then have "?T (c # cs @ t) = None"
      by (rule lit_None)
    then have "lazy_star ?P ?T (c # cs @ t) = (if ?P c then lazy_star ?P ?T (cs @ t) else None)"
      by (rule lazy_star_skip)
    moreover from Cons.prems have "\<not> py_in ''phase'' cs"
      by simp
    ultimately show ?case
      using Cons.IH by (simp del: py_in.simps)
  qed
qed

text \<open>
  A continuation is \<open>settled\<close> on the texts that end in \<open>t\<close> when, after any text without
  "phase", it fails or gives the one result \<open>G\<close>.
\<close>

lemma settled_lit:
  assumes f: "\<And>a. \<not> py_in ''phase'' a \<Longrightarrow> f (a @ t) = None \<or> f (a @ t) = G"
    and w: "CHR ''p'' \<notin> set w" and t: "t = CHR ''p'' # t'" and a: "\<not> py_in ''phase'' a"
  shows "lit w f (a @ t) = None \<or> lit w f (a @ t) = G"
proof (cases "prefix w (a @ t)")
  case False
  then show ?thesis by (simp add: lit_None)
next
  case True
  then have "prefix w a"
    unfolding t using w by (rule prefix_avoiding)
  then obtain a' where a': "a = w @ a'"
    by (auto simp: prefix_def)
  with a have "\<not> py_in ''phase'' a'"
    using py_in_suffix by blast
  then have "f (a' @ t) = None \<or> f (a' @ t) = G"
    by (rule f)
  moreover have "lit w f (a @ t) = f (a' @ t)"
    unfolding a' append_assoc by (rule lit_hit)
  ultimately show ?thesis by simp
qed

lemma settled_star:
  assumes f: "\<And>a. \<not> py_in ''phase'' a \<Longrightarrow> f (a @ t) = None \<or> f (a @ t) = G"
    and P: "\<not> P (CHR ''p'')" and t: "t = CHR ''p'' # t'" and a: "\<not> py_in ''phase'' a"
  shows "star P f (a @ t) = None \<or> star P f (a @ t) = G"
  using a
proof (induction a)
  case Nil
  have "star P f t = f t"
    unfolding t using P by simp
  moreover have "f ([] @ t) = None \<or> f ([] @ t) = G"
    by (rule f) simp
  ultimately show ?case by simp
next
  case (Cons c cs)
  from Cons.prems have "\<not> py_in ''phase'' cs"
    by simp
  then have ih: "star P f (cs @ t) = None \<or> star P f (cs @ t) = G"
    by (rule Cons.IH)
  have here: "f ((c # cs) @ t) = None \<or> f ((c # cs) @ t) = G"
    using Cons.prems by (rule f)
  show ?case
  proof (cases "P c")
    case True
    with ih here show ?thesis
      by (cases "star P f (cs @ t)") auto
  next
    case False
    with here show ?thesis by simp
  qed
qed

lemma settled_plus:
  assumes f: "\<And>a. \<not> py_in ''phase'' a \<Longrightarrow> f (a @ t) = None \<or> f (a @ t) = G"
    and P: "\<not> P (CHR ''p'')" and t: "t = CHR ''p'' # t'" and a: "\<not> py_in ''phase'' a"
  shows "plus P f (a @ t) = None \<or> plus P f (a @ t) = G"
proof (cases a)
  case Nil
  then show ?thesis
    using P by (simp add: plus_def one_def t)
next
  case (Cons c cs)
  with a have cs: "\<not> py_in ''phase'' cs"
    by simp
  have "star P f (cs @ t) = None \<or> star P f (cs @ t) = G"
  proof (rule settled_star [where f = f and P = P and t' = t'])
    show "f (b @ t) = None \<or> f (b @ t) = G" if "\<not> py_in ''phase'' b" for b
      using that by (rule f)
  qed (fact P t cs)+
  then show ?thesis
    by (auto simp: plus_def one_def Cons)
qed

lemma settled_alt:
  assumes "x = None \<or> x = G" "y = None \<or> y = G"
  shows "(case x of Some r \<Rightarrow> Some r | None \<Rightarrow> y) = None
       \<or> (case x of Some r \<Rightarrow> Some r | None \<Rightarrow> y) = G"
  using assms by (auto split: option.splits)

lemma overview_settled:
  assumes a: "\<not> py_in ''phase'' a" and k: "k r = Some g"
    and d: "d = CHR ''2'' \<or> d = CHR ''3''" and t: "t = ''phase '' @ d # r"
  shows "overview_re k (a @ t) = None \<or> overview_re k (a @ t) = Some g"
proof -
  define Z where "Z = lazy_star (\<lambda>c. c \<noteq> CHR ''.'')
           (lit ''phase''
             (star py_isspace
               (alts (map lit [''iii'', ''3'', ''ii'', ''2'', ''iv'', ''4'', ''i'', ''1'']) k)))"
  have tc: "t = CHR ''p'' # (''hase '' @ d # r)"
    by (simp add: t)
  have Z: "Z (b @ t) = None \<or> Z (b @ t) = Some g" if "\<not> py_in ''phase'' b" for b
    unfolding Z_def lazy_reach [of b k r g d t, OF that k d t] by simp
  have 1: "lit ''study'' Z (a @ t) = None \<or> lit ''study'' Z (a @ t) = Some g"
    by (rule settled_lit [where f = Z, OF Z _ tc a]) simp_all
  have T: "lit ''trial'' Z (b @ t) = None \<or> lit ''trial'' Z (b @ t) = Some g"
    if "\<not> py_in ''phase'' b" for b
    by (rule settled_lit [where f = Z, OF Z _ tc that]) simp_all
  have S: "plus py_isspace (lit ''trial'' Z) (b @ t) = None
      \<or> plus py_isspace (lit ''trial'' Z) (b @ t) = Some g"
    if "\<not> py_in ''phase'' b" for b
    by (rule settled_plus [where f = "lit ''trial'' Z", OF T _ tc that])
      (simp_all add: py_isspace_def)
  have 3: "lit ''clinical'' (plus py_isspace (lit ''trial'' Z)) (a @ t) = None
      \<or> lit ''clinical'' (plus py_isspace (lit ''trial'' Z)) (a @ t) = Some g"
    by (rule settled_lit [where f = "plus py_isspace (lit ''trial'' Z)", OF S _ tc a]) simp_all
  have "overview_re k (a @ t) =
      (case lit ''study'' Z (a @ t) of
         Some x \<Rightarrow> Some x
       | None \<Rightarrow>
          (case lit ''trial'' Z (a @ t) of
             Some x \<Rightarrow> Some x
           | None \<Rightarrow> lit ''clinical'' (plus py_isspace (lit ''trial'' Z)) (a @ t)))"
    unfolding overview_re_def alt_def Z_def ..
  then show ?thesis
    using settled_alt [OF 1 settled_alt [OF T [OF a] 3]] by simp
qed

lemma overview_hit:
  assumes a: "\<not> py_in ''phase'' (kw @ mid)" and k: "k r = Some g"
    and d: "d = CHR ''2'' \<or> d = CHR ''3''" and t: "t = ''phase '' @ d # r"
    and kw: "kw = ''study'' \<or> kw = ''trial''" and mid: "CHR ''.'' \<notin> set mid"
  shows "overview_re k (kw @ mid @ t) = Some g"
proof -
  define Z where "Z = lazy_star (\<lambda>c. c \<noteq> CHR ''.'')
           (lit ''phase''
             (star py_isspace
               (alts (map lit [''iii'', ''3'', ''ii'', ''2'', ''iv'', ''4'', ''i'', ''1'']) k)))"
  from a have m: "\<not> py_in ''phase'' mid"
    by (rule py_in_suffix)
  have Z: "Z (mid @ t) = Some g"
    unfolding Z_def lazy_reach [of mid k r g d t, OF m k d t] using mid by simp
  have o: "overview_re k s =
      (case lit ''study'' Z s of
         Some x \<Rightarrow> Some x
       | None \<Rightarrow>
          (case lit ''trial'' Z s of
             Some x \<Rightarrow> Some x
           | None \<Rightarrow> lit ''clinical'' (plus py_isspace (lit ''trial'' Z)) s))" for s
    unfolding overview_re_def alt_def Z_def ..
  from kw show ?thesis
  proof
    assume "kw = ''study''"
    then have "lit ''study'' Z (kw @ mid @ t) = Some g"
      using Z by (simp only: lit_hit)
    then show ?thesis
      unfolding o by simp
  next
    assume kw: "kw = ''trial''"
    then have "lit ''trial'' Z (kw @ mid @ t) = Some g"
      using Z by (simp only: lit_hit)
    moreover have "lit ''study'' Z (kw @ mid @ t) = None"
      unfolding kw by (rule lit_None) simp
    ultimately show ?thesis
      unfolding o by simp
  qed
qed

lemma re_search_hit: "m s = Some g \<Longrightarrow> re_search m s = Some g"
  by (cases s) simp_all

lemma whole_match_overview:
  assumes t: "t = ''phase '' @ d # r"
  shows "whole_match overview_re (a @ t) =
           overview_re (\<lambda>r'. Some (take (length (a @ t) - length r') (a @ t))) (a @ t)"
    and "(\<lambda>r'. Some (take (length (a @ t) - length r') (a @ t))) r = Some (a @ ''phase '' @ [d])"
  by (simp_all add: whole_match_def capture_def t)

lemma search_found:
  assumes np: "\<not> py_in ''phase'' (pre @ kw @ mid)"
    and kw: "kw = ''study'' \<or> kw = ''trial''" and mid: "CHR ''.'' \<notin> set mid"
    and d: "d = CHR ''2'' \<or> d = CHR ''3''" and t: "t = ''phase '' @ d # r"
  shows "\<exists>x a. pre @ kw @ mid = x @ a
           \<and> re_search (whole_match overview_re) (pre @ kw @ mid @ t)
               = Some (a @ ''phase '' @ [d])"
  using np
proof (induction pre)
  case Nil
  from Nil.prems have np': "\<not> py_in ''phase'' (kw @ mid)"
    by simp
  let ?K = "\<lambda>r'. Some (take (length ((kw @ mid) @ t) - length r') ((kw @ mid) @ t))"
  have K: "?K r = Some ((kw @ mid) @ ''phase '' @ [d])"
    by (rule whole_match_overview(2) [OF t])
  have "overview_re ?K (kw @ mid @ t) = Some ((kw @ mid) @ ''phase '' @ [d])"
    using np' K d t kw mid by (rule overview_hit)
  then have "whole_match overview_re ((kw @ mid) @ t) = Some ((kw @ mid) @ ''phase '' @ [d])"
    unfolding whole_match_overview(1) [OF t] by (simp only: append_assoc)
  then have "re_search (whole_match overview_re) ((kw @ mid) @ t)
      = Some ((kw @ mid) @ ''phase '' @ [d])"
    by (rule re_search_hit)
  then have "[] @ kw @ mid = [] @ (kw @ mid)
      \<and> re_search (whole_match overview_re) ([] @ kw @ mid @ t)
          = Some ((kw @ mid) @ ''phase '' @ [d])"
    by simp
  then show ?case by blast
next
  case (Cons c pre)
  let ?a = "c # pre @ kw @ mid"
  from Cons.prems have a: "\<not> py_in ''phase'' ?a"
    by simp
  let ?K = "\<lambda>r'. Some (take (length (?a @ t) - length r') (?a @ t))"
  have K: "?K r = Some (?a @ ''phase '' @ [d])"
    by (rule whole_match_overview(2) [OF t])
  have "overview_re ?K (?a @ t) = None \<or> overview_re ?K (?a @ t) = Some (?a @ ''phase '' @ [d])"
    using a K d t by (rule overview_settled)
  then have here: "whole_match overview_re (?a @ t) = None
      \<or> whole_match overview_re (?a @ t) = Some (?a @ ''phase '' @ [d])"
    unfolding whole_match_overview(1) [OF t] .
  then show ?case
  proof
    assume "whole_match overview_re (?a @ t) = Some (?a @ ''phase '' @ [d])"
    then have "re_search (whole_match overview_re) (?a @ t) = Some (?a @ ''phase '' @ [d])"
      by (rule re_search_hit)
    then have "(c # pre) @ kw @ mid = [] @ ?a
      \<and> re_search (whole_match overview_re) ((c # pre) @ kw @ mid @ t)
          = Some (?a @ ''phase '' @ [d])"
      by simp
    then show ?thesis by blast
  next
    assume none: "whole_match overview_re (?a @ t) = None"
    from Cons.prems have "\<not> py_in ''phase'' (pre @ kw @ mid)"
      by simp
    then obtain x b where xb: "pre @ kw @ mid = x @ b"
      "re_search (whole_match overview_re) (pre @ kw @ mid @ t) = Some (b @ ''phase '' @ [d])"
      using Cons.IH by blast
    from none have "re_search (whole_match overview_re) ((c # pre) @ kw @ mid @ t)
        = re_search (whole_match overview_re) (pre @ kw @ mid @ t)"
      by simp
    with xb have "(c # pre) @ kw @ mid = (c # x) @ b
      \<and> re_search (whole_match overview_re) ((c # pre) @ kw @ mid @ t)
          = Some (b @ ''phase '' @ [d])"
      by simp
    then show ?thesis by blast
  qed
qed

lemma classify:
  assumes "\<not> py_in ''phase'' a" "prefix ''phase'' w" "p = ''phase'' @ q"
  shows "py_in w (a @ p) = py_in w p"
  using assms(1)
proof (induction a)
  case Nil
  then show ?case by simp
next
  case (Cons c cs)
  from Cons.prems assms(3) have "\<not> prefix ''phase'' (c # cs @ p)"
    by (rule no_phase_start')
  with assms(2) have "\<not> prefix w (c # cs @ p)"
    using prefix_order.trans by blast
  moreover from Cons.prems have "\<not> py_in ''phase'' cs"
    by simp
  ultimately show ?case
    using Cons.IH by (simp del: py_in.simps(2) add: py_in.simps(2) [of w c "cs @ p"])
qed

lemma phase_rule_found:
  assumes low: "lower L = L"
    and L: "L = pre @ kw @ mid @ ''phase '' @ d # rest"
    and kw: "kw = ''study'' \<or> kw = ''trial''" and mid: "CHR ''.'' \<notin> set mid"
    and np: "\<not> py_in ''phase'' (pre @ kw @ mid)"
    and len: "length (pre @ kw @ mid) + 7 \<le> 500"
    and d: "d = CHR ''2'' \<or> d = CHR ''3''"
  shows "phase_rule L = [(''Phase'', if d = CHR ''2'' then 2 else 3)]"
proof -
  define r where "r = take (500 - (length (pre @ kw @ mid) + 7)) rest"
  define t where "t = ''phase '' @ d # r"
  define p where "p = ''phase '' @ [d]"
  define u where "u = pre @ kw @ mid"
  have Lu: "L = u @ p @ rest"
    by (simp add: L u_def p_def)
  have lenp: "length p = 7"
    by (simp add: p_def)
  have "take 500 L = u @ take (500 - length u) (p @ rest)"
    using len unfolding Lu u_def [symmetric] by simp
  also have "take (500 - length u) (p @ rest) = p @ take (500 - length u - 7) rest"
    using len lenp unfolding u_def [symmetric] by simp
  also have "500 - length u - 7 = 500 - (length u + 7)"
    by simp
  finally have win: "take 500 L = pre @ kw @ mid @ t"
    by (simp add: u_def t_def r_def p_def)
  obtain x a where xa: "pre @ kw @ mid = x @ a"
    "re_search (whole_match overview_re) (pre @ kw @ mid @ t) = Some (a @ p)"
    using search_found [OF np kw mid d t_def] unfolding p_def by blast
  from np have a: "\<not> py_in ''phase'' a"
    unfolding xa(1) by (rule py_in_suffix)
  have "lower ((pre @ kw @ mid) @ ''phase '' @ d # rest) = (pre @ kw @ mid) @ ''phase '' @ d # rest"
    using low unfolding L by simp
  then have "lower (pre @ kw @ mid) = pre @ kw @ mid"
    by (rule lower_append_eq)
  then have "lower (x @ a) = x @ a"
    unfolding xa(1) .
  then have "lower a = a"
    by (rule lower_append_eq)
  moreover have "lower p = p"
    using d by (rule disjE) (simp_all add: p_def lower_def char_lower_def)
  ultimately have lp: "lower (a @ p) = a @ p"
    by (simp add: lower_def)
  have pq: "p = ''phase'' @ ('' '' @ [d])"
    by (simp add: p_def)
  have c: "py_in w (a @ p) = py_in w p" if "prefix ''phase'' w" for w
    using a that pq by (rule classify)
  have c3: "py_in ''phase iii'' (a @ p) = py_in ''phase iii'' p"
    by (rule c) simp
  have c2: "py_in ''phase ii'' (a @ p) = py_in ''phase ii'' p"
    by (rule c) simp
  have d3: "py_in ''phase 3'' (a @ p) = py_in ''phase 3'' p"
    by (rule c) simp
  have d2: "py_in ''phase 2'' (a @ p) = py_in ''phase 2'' p"
    by (rule c) simp
  have rule: "phase_rule L =
     (if py_in ''phase iii'' p \<or> py_in ''phase 3'' p then [(''Phase'', 3)]
      else if py_in ''phase ii'' p \<or> py_in ''phase 2'' p then [(''Phase'', 2)]
      else if py_in ''phase iv'' (a @ p) \<or> py_in ''phase 4'' (a @ p) then [(''Phase'', 4)]
      else if re_search (phase_one_re (\<lambda>r. Some ())) (a @ p) \<noteq> None then [(''Phase'', 1)]
      else [])"
    unfolding phase_rule_def win xa(2) option.case Let_def lp c3 c2 d3 d2 ..
  from d show ?thesis
  proof
    assume d2': "d = CHR ''2''"
    have "\<not> py_in ''phase iii'' p" "\<not> py_in ''phase 3'' p" "py_in ''phase 2'' p"
      by (simp_all add: p_def d2')
    then show ?thesis
      unfolding rule using d2' by simp
  next
    assume d3': "d = CHR ''3''"
    have "py_in ''phase 3'' p"
      by (simp add: p_def d3')
    then show ?thesis
      unfolding rule using d3' by simp
  qed
qed

lemma phase_insight: "insight fr ''Phase'' 2 3 = ''Phase 2'' @ arrow @ ''3''"
  by (simp add: insight_def py_int_def str_int_def str_nat.simps)

lemma delta_phase:
  assumes P: "map_of P ''Phase'' = Some 2" and C: "map_of C ''Phase'' = Some 3"
  shows "''Phase 2'' @ arrow @ ''3'' \<in> set (snd (compute_numeric_delta fr P C))"
proof -
  from P have "(''Phase'', 2) \<in> set P"
    by (rule map_of_SomeD)
  then have p: "''Phase'' \<in> set (map fst P)"
    by force
  from C have "(''Phase'', 3) \<in> set C"
    by (rule map_of_SomeD)
  then have c: "''Phase'' \<in> set (map fst C)"
    by force
  from p c have k: "''Phase'' \<in> set (common_keys P C)"
    by (simp add: common_keys_def)
  have "delta_of_key fr P C ''Phase'' = [(1 / 3, insight fr ''Phase'' 2 3)]"
    by (simp add: delta_of_key_def P C)
  then have "(1 / 3, ''Phase 2'' @ arrow @ ''3'') \<in> set (delta_of_key fr P C ''Phase'')"
    by (simp add: phase_insight)
  with k have "(1 / 3, ''Phase 2'' @ arrow @ ''3'')
      \<in> set (concat (map (delta_of_key fr P C) (common_keys P C)))"
    by auto
  then have "snd (1 / 3 :: real, ''Phase 2'' @ arrow @ ''3'')
      \<in> snd ` set (concat (map (delta_of_key fr P C) (common_keys P C)))"
    by (rule imageI)
  then show ?thesis
    by (simp add: compute_numeric_delta_def Let_def)
qed

lemma extract_phase:
  assumes "phase_rule (lower text) = [(''Phase'', v)]"
  shows "map_of (extract_numbers_with_labels text) ''Phase'' = Some v"
  by (simp add: extract_numbers_with_labels_def Let_def assms)

text \<open>
  C7 (as amended). The overview pattern wants the word "study" or "trial" before the phase
  mention, with no full stop between them, and takes the first phase mention it can reach.
  So: when the lower-cased text reads \<open>pre @ kw @ mid @ ''phase 2'' @ rest\<close> with
  \<open>kw\<close> one of "study" and "trial", no full stop in \<open>mid\<close>, no "phase" before this
  one, and the mention ends within the first 500 characters, the extraction yields
  \<open>Phase = 2\<close>; likewise \<open>Phase = 3\<close> for "phase 3"; and the numeric delta of the two
  extracted maps contains the insight "Phase 2 \<rightarrow> 3" (the arrow in UTF-8).
\<close>

theorem phase_kpi_delta:
  assumes "lower prev_text = pre @ kw @ mid @ ''phase 2'' @ rest"
    and "kw = ''study'' \<or> kw = ''trial''" and "CHR ''.'' \<notin> set mid"
    and "\<not> py_in ''phase'' (pre @ kw @ mid)" and "length (pre @ kw @ mid) + 7 \<le> 500"
    and "lower cur_text = pre' @ kw' @ mid' @ ''phase 3'' @ rest'"
    and "kw' = ''study'' \<or> kw' = ''trial''" and "CHR ''.'' \<notin> set mid'"
    and "\<not> py_in ''phase'' (pre' @ kw' @ mid')" and "length (pre' @ kw' @ mid') + 7 \<le> 500"
  shows "map_of (extract_numbers_with_labels prev_text) ''Phase'' = Some 2
       \<and> map_of (extract_numbers_with_labels cur_text) ''Phase'' = Some 3
       \<and> ''Phase 2'' @ arrow @ ''3''
           \<in> set (snd (compute_numeric_delta fr
                         (extract_numbers_with_labels prev_text)
                         (extract_numbers_with_labels cur_text)))"
proof -
  have "lower prev_text = pre @ kw @ mid @ ''phase '' @ CHR ''2'' # rest"
    using assms(1) by simp
  then have "phase_rule (lower prev_text)
      = [(''Phase'', if CHR ''2'' = CHR ''2'' then 2 else 3)]"
    using assms(2-5) by (intro phase_rule_found lower_idem) simp_all
  then have p: "map_of (extract_numbers_with_labels prev_text) ''Phase'' = Some 2"
    by (intro extract_phase) simp
  have "lower cur_text = pre' @ kw' @ mid' @ ''phase '' @ CHR ''3'' # rest'"
    using assms(6) by simp
  then have "phase_rule (lower cur_text)
      = [(''Phase'', if CHR ''3'' = CHR ''2'' then 2 else 3)]"
    using assms(7-10) by (intro phase_rule_found lower_idem) simp_all
  then have c: "map_of (extract_numbers_with_labels cur_text) ''Phase'' = Some 3"
    by (intro extract_phase) simp
  from p c delta_phase [OF p c] show ?thesis
    by blast
qed

text \<open>The theorem on two short texts; the first has a full stop before its keyword.\<close>

theorem phase_kpi_delta_witness:
  "map_of (extract_numbers_with_labels ''Study X. The trial moved to Phase 2 in May.'') ''Phase''
     = Some 2
   \<and> map_of (extract_numbers_with_labels ''Our study is now a Phase 3 programme.'') ''Phase''
     = Some 3
   \<and> ''Phase 2'' @ arrow @ ''3''
       \<in> set (snd (compute_numeric_delta (\<lambda>x. []) 
            (extract_numbers_with_labels ''Study X. The trial moved to Phase 2 in May.'')
            (extract_numbers_with_labels ''Our study is now a Phase 3 programme.'')))"
proof -
  have 1: "lower ''Study X. The trial moved to Phase 2 in May.''
      = ''study x. the '' @ ''trial'' @ '' moved to '' @ ''phase 2'' @ '' in may.''"
    by (simp add: lower_def char_lower_def)
  have 2: "lower ''Our study is now a Phase 3 programme.''
      = ''our '' @ ''study'' @ '' is now a '' @ ''phase 3'' @ '' programme.''"
    by (simp add: lower_def char_lower_def)
  show ?thesis
    by (rule phase_kpi_delta [OF 1 _ _ _ _ 2]) simp_all
qed

text \<open>
  Where the keyword only follows the phase mention, nothing is extracted and no insight is
  emitted, although both texts contain their phase and the word "trial".
\<close>

theorem phase_keyword_order_counterexample:
  "py_in ''Phase 2'' ''Phase 2 trial'' \<and> py_in ''trial'' ''Phase 2 trial''
   \<and> py_in ''Phase 3'' ''Phase 3 trial'' \<and> py_in ''trial'' ''Phase 3 trial''
   \<and> map_of (extract_numbers_with_labels ''Phase 2 trial'') ''Phase'' = None
   \<and> map_of (extract_numbers_with_labels ''Phase 3 trial'') ''Phase'' = None
   \<and> snd (compute_numeric_delta (\<lambda>x. []) (extract_numbers_with_labels ''Phase 2 trial'')
         (extract_numbers_with_labels ''Phase 3 trial'')) = []"
  by code_simp

end
